theory Spec2Isabelle
  imports Main
begin

section \<open>The source generator of astmonkey (visitors.py)\<close>

text \<open>
  The development embeds the source generating visitors of \<^verbatim>\<open>astmonkey/visitors.py\<close>:
  the symbol tables, the output buffer with its deferred newline and its line
  reconciliation, the rendering methods of \<^verbatim>\<open>BaseSourceGeneratorNodeVisitor\<close> and the
  methods that the classes \<^verbatim>\<open>SourceGeneratorNodeVisitorPython26\<close> to
  \<^verbatim>\<open>SourceGeneratorNodeVisitorPython36\<close> add or override.

  A method that mutates the visitor becomes a function from the visitor's attributes to
  either an error or the updated attributes. A Python exception is a value of type
  \<open>error\<close>; the first one raised ends the render.
\<close>

subsection \<open>Host language: exceptions, strings, \<^verbatim>\<open>repr\<close>\<close>

datatype error = KeyError | AttributeError | TypeError

text \<open>A sequence of statements: each runs on the state the previous one left.\<close>

primrec run :: "('s \<Rightarrow> error + 's) list \<Rightarrow> 's \<Rightarrow> error + 's" where
  "run [] s = Inr s"
| "run (g # gs) s = (case g s of Inl e \<Rightarrow> Inl e | Inr s' \<Rightarrow> run gs s')"

definition raise :: "error \<Rightarrow> 's \<Rightarrow> error + 's" where
  "raise e s = Inl e"

definition NL :: string where
  "NL = [CHR 0x0A]"

text \<open>\<^verbatim>\<open>s.split(sep)\<close> for a separator of one character.\<close>

primrec str_split :: "string \<Rightarrow> char \<Rightarrow> string list" where
  "str_split [] sep = [[]]"
| "str_split (c # cs) sep =
     (if c = sep then [] # str_split cs sep
      else (case str_split cs sep of
              [] \<Rightarrow> [[c]]
            | l # ls \<Rightarrow> (c # l) # ls))"

text \<open>\<^verbatim>\<open>sep.join(xs)\<close>.\<close>

fun join :: "string \<Rightarrow> string list \<Rightarrow> string" where
  "join sep [] = []"
| "join sep [x] = x"
| "join sep (x # y # ys) = x @ sep @ join sep (y # ys)"

text \<open>\<^verbatim>\<open>s.lstrip(c)\<close> and \<^verbatim>\<open>s.rstrip(c)\<close> for one character.\<close>

definition lstrip :: "string \<Rightarrow> char \<Rightarrow> string" where
  "lstrip s c = dropWhile (\<lambda>x. x = c) s"

definition rstrip :: "string \<Rightarrow> char \<Rightarrow> string" where
  "rstrip s c = rev (dropWhile (\<lambda>x. x = c) (rev s))"

text \<open>
  \<^verbatim>\<open>repr\<close> of an integer: its decimal digits. Numbers are modelled as Python's unbounded
  integers; floating point and complex literals are outside the model.
\<close>

definition digit_char :: "nat \<Rightarrow> char" where
  "digit_char k = char_of (of_char (CHR ''0'') + k :: nat)"

fun repr_nat :: "nat \<Rightarrow> string" where
  "repr_nat k = (if k < 10 then [digit_char k] else repr_nat (k div 10) @ [digit_char (k mod 10)])"

declare repr_nat.simps [simp del]

definition repr_int :: "int \<Rightarrow> string" where
  "repr_int i = (if i < 0 then CHR ''-'' # repr_nat (nat (- i)) else repr_nat (nat i))"

text \<open>
  \<^verbatim>\<open>repr\<close> of a string of ASCII characters, as CPython 3 prints it: single quotes unless
  the text holds a single quote and no double quote; backslash, the quote, tab, newline
  and carriage return escaped with a backslash, other control characters as \<^verbatim>\<open>\xhh\<close>.
\<close>

definition hex_char :: "nat \<Rightarrow> char" where
  "hex_char k = (if k < 10 then digit_char k else char_of (of_char (CHR ''a'') + (k - 10) :: nat))"

definition repr_char :: "char \<Rightarrow> char \<Rightarrow> string" where
  "repr_char quote c =
     (if c = quote \<or> c = CHR 0x5C then [CHR 0x5C, c]
      else if c = CHR 0x09 then [CHR 0x5C, CHR ''t'']
      else if c = CHR 0x0A then [CHR 0x5C, CHR ''n'']
      else if c = CHR 0x0D then [CHR 0x5C, CHR ''r'']
      else if (of_char c :: nat) < 32 \<or> c = CHR 0x7F
        then [CHR 0x5C, CHR ''x'', hex_char (of_char c div 16), hex_char (of_char c mod 16)]
      else [c])"

definition repr_str :: "string \<Rightarrow> string" where
  "repr_str s =
     (let quote = (if CHR 0x27 \<in> set s \<and> CHR 0x22 \<notin> set s then CHR 0x22 else CHR 0x27)
      in quote # concat (map (repr_char quote) s) @ [quote])"

subsection \<open>Symbol tables\<close>

text \<open>
  The operator classes of the \<^verbatim>\<open>ast\<close> module. A node's \<^verbatim>\<open>op\<close> field may hold any of
  them; the tables are dictionaries keyed by the operator's class.
\<close>

datatype operator =
    And | Or
  | Add | Sub | Mult | MatMult | Div | Mod | Pow | LShift | RShift
  | BitOr | BitXor | BitAnd | FloorDiv
  | Invert | Not_op | UAdd | USub
  | Eq | NotEq | Lt | LtE | Gt | GtE | Is | IsNot | In | NotIn

definition BOOLOP_SYMBOLS :: "operator \<rightharpoonup> string" where
  "BOOLOP_SYMBOLS = map_of [(And, ''and''), (Or, ''or'')]"

definition BINOP_SYMBOLS :: "operator \<rightharpoonup> string" where
  "BINOP_SYMBOLS = map_of
     [(Add, ''+''), (Sub, ''-''), (Mult, ''*''), (Div, ''/''), (FloorDiv, ''//''),
      (Mod, ''%''), (LShift, ''<<''), (RShift, ''>>''), (BitOr, ''|''), (BitAnd, ''&''),
      (BitXor, ''^''), (Pow, ''**'')]"

definition CMPOP_SYMBOLS :: "operator \<rightharpoonup> string" where
  "CMPOP_SYMBOLS = map_of
     [(Eq, ''==''), (Gt, ''>''), (GtE, ''>=''), (In, ''in''), (Is, ''is''),
      (IsNot, ''is not''), (Lt, ''<''), (LtE, ''<=''), (NotEq, ''!=''), (NotIn, ''not in'')]"

definition UNARYOP_SYMBOLS :: "operator \<rightharpoonup> string" where
  "UNARYOP_SYMBOLS = map_of [(Invert, ''~''), (Not_op, ''not''), (UAdd, ''+''), (USub, ''-'')]"

text \<open>
  \<^verbatim>\<open>TABLE[type(node.op)]\<close>: the subscript raises \<^verbatim>\<open>KeyError\<close> for a class that is not a
  key. The continuation receives the symbol.
\<close>

definition subscript :: "(operator \<rightharpoonup> string) \<Rightarrow> operator \<Rightarrow> (string \<Rightarrow> 's \<Rightarrow> error + 's) \<Rightarrow> 's \<Rightarrow> error + 's" where
  "subscript table op k = (case table op of None \<Rightarrow> raise KeyError | Some symbol \<Rightarrow> k symbol)"

subsection \<open>The output buffer\<close>

text \<open>
  The attributes of a visitor object, as \<^verbatim>\<open>__init__\<close> sets them. The indentation only
  ever changes in \<^verbatim>\<open>body\<close>, which adds one and takes it back, so it is a natural number.
\<close>

record visitor =
  result :: "string list"
  indent_with :: string
  indentation :: nat
  new_line :: bool

type_synonym gen = "visitor \<Rightarrow> error + visitor"

definition init :: "string \<Rightarrow> visitor" where
  "init indent = \<lparr>result = [], indent_with = indent, indentation = 0, new_line = False\<rparr>"

definition write_newline :: gen where
  "write_newline s =
     (let s1 = (if result s \<noteq> [] then s\<lparr>result := result s @ [NL]\<rparr> else s)
      in Inr (s1\<lparr>result := result s1 @ [concat (replicate (indentation s1) (indent_with s1))],
                new_line := False\<rparr>))"

text \<open>The number of lines of the text produced so far, as \<^verbatim>\<open>add_missing_lines\<close> counts it.\<close>

definition lines :: "visitor \<Rightarrow> int" where
  "lines s = (if result s \<noteq> [] then int (length (str_split (concat (result s)) (CHR 0x0A))) else 0)"

definition add_missing_lines :: "int \<Rightarrow> gen" where
  "add_missing_lines lineno s =
     (let line_diff = lineno - lines s
      in if line_diff \<noteq> 0 then run (replicate (nat line_diff) write_newline) s else Inr s)"

text \<open>
  The parameter \<open>node\<close> of \<^verbatim>\<open>correct_line_number\<close>, \<^verbatim>\<open>write\<close> and \<^verbatim>\<open>newline\<close> is only read
  for its line number: it is given here as \<open>Some\<close> of the line number of a node that has
  one, and as \<open>None\<close> where the call passes no node or the node has no line number.
\<close>

definition correct_line_number :: "int option \<Rightarrow> gen" where
  "correct_line_number node =
     run [\<lambda>s. if new_line s then write_newline s else Inr s,
          case node of Some lineno \<Rightarrow> add_missing_lines lineno | None \<Rightarrow> Inr]"

definition write_out :: "string \<Rightarrow> int option \<Rightarrow> gen" where
  "write_out x node = run [correct_line_number node, \<lambda>s. Inr (s\<lparr>result := result s @ [x]\<rparr>)]"

definition newline :: "int option \<Rightarrow> gen" where
  "newline node = run [\<lambda>s. Inr (s\<lparr>new_line := True\<rparr>), correct_line_number node]"

text \<open>The statements of a block arrive as their renderers, in order.\<close>

definition body :: "gen list \<Rightarrow> gen" where
  "body statements =
     run [\<lambda>s. Inr (s\<lparr>new_line := True\<rparr>),
          \<lambda>s. Inr (s\<lparr>indentation := indentation s + 1\<rparr>),
          run statements,
          \<lambda>s. Inr (s\<lparr>indentation := indentation s - 1\<rparr>)]"

definition body_or_else :: "gen list \<Rightarrow> gen list \<Rightarrow> gen" where
  "body_or_else node_body node_orelse =
     run [body node_body,
          if node_orelse \<noteq> [] then run [newline None, write_out ''else:'' None, body node_orelse]
          else Inr]"

definition docstring :: "string \<Rightarrow> gen" where
  "docstring s = write_out (replicate 3 (CHR 0x22) @ s @ replicate 3 (CHR 0x22)) None"


subsection \<open>Control helpers\<close>

text \<open>
  \<open>if_do\<close> is an \<^verbatim>\<open>if\<close> without \<^verbatim>\<open>else\<close>; \<open>for_each\<close> is a \<^verbatim>\<open>for\<close> loop whose body is the
  function; \<open>opt\<close> lists the value of an optional field.
\<close>

definition if_do :: "bool \<Rightarrow> ('s \<Rightarrow> error + 's) \<Rightarrow> 's \<Rightarrow> error + 's" where
  "if_do b g = (if b then g else Inr)"

definition for_each :: "'a list \<Rightarrow> ('a \<Rightarrow> 's \<Rightarrow> error + 's) \<Rightarrow> 's \<Rightarrow> error + 's" where
  "for_each xs f = run (map f xs)"

definition opt :: "'a option \<Rightarrow> 'a list" where
  "opt v = (case v of None \<Rightarrow> [] | Some x \<Rightarrow> [x])"

text \<open>
  \<^verbatim>\<open>signature\<close>, \<^verbatim>\<open>call_signature\<close> and \<^verbatim>\<open>visit_ClassDef\<close> keep a one-shot flag in a list
  (\<^verbatim>\<open>want_comma\<close>, \<^verbatim>\<open>have_args\<close>) that a local function reads and sets. The flag is
  threaded beside the visitor: \<open>scoped\<close> opens the scope with the empty list (\<open>False\<close>),
  \<open>lift\<close> runs a method that does not touch the flag, \<open>read_flag\<close> reads it.
\<close>

type_synonym cgen = "bool \<times> visitor \<Rightarrow> error + bool \<times> visitor"

definition lift :: "gen \<Rightarrow> cgen" where
  "lift g = (\<lambda>(flag, s). case g s of Inl e \<Rightarrow> Inl e | Inr s' \<Rightarrow> Inr (flag, s'))"

definition scoped :: "cgen \<Rightarrow> gen" where
  "scoped c s = (case c (False, s) of Inl e \<Rightarrow> Inl e | Inr (flag, s') \<Rightarrow> Inr s')"

definition read_flag :: "(bool \<Rightarrow> gen) \<Rightarrow> cgen" where
  "read_flag k = (\<lambda>(flag, s). lift (k flag) (flag, s))"

definition write_comma :: cgen where
  "write_comma = (\<lambda>(want_comma, s).
     if want_comma then lift (write_out '', '' None) (want_comma, s) else Inr (True, s))"

definition paren_or_comma :: cgen where
  "paren_or_comma = (\<lambda>(have_args, s).
     if have_args then lift (write_out '', '' None) (have_args, s)
     else lift (write_out ''('' None) (True, s))"

subsection \<open>Dialects\<close>

text \<open>
  The nine visitor classes. Each inherits from the one before it, the first from
  \<^verbatim>\<open>BaseSourceGeneratorNodeVisitor\<close>; \<open>mro\<close> lists a class and its ancestors among them.
  A method defined in class \<open>c\<close> and in no later class is what an instance of \<open>d\<close> runs
  when \<open>issubclass d c\<close>.
\<close>

datatype dialect =
  Python26 | Python27 | Python30 | Python31 | Python32 | Python33 | Python34 | Python35 | Python36

fun python_version :: "dialect \<Rightarrow> nat \<times> nat" where
  "python_version Python26 = (2, 6)"
| "python_version Python27 = (2, 7)"
| "python_version Python30 = (3, 0)"
| "python_version Python31 = (3, 1)"
| "python_version Python32 = (3, 2)"
| "python_version Python33 = (3, 3)"
| "python_version Python34 = (3, 4)"
| "python_version Python35 = (3, 5)"
| "python_version Python36 = (3, 6)"

fun mro :: "dialect \<Rightarrow> dialect list" where
  "mro Python26 = [Python26]"
| "mro Python27 = [Python27, Python26]"
| "mro Python30 = [Python30, Python27, Python26]"
| "mro Python31 = [Python31, Python30, Python27, Python26]"
| "mro Python32 = [Python32, Python31, Python30, Python27, Python26]"
| "mro Python33 = [Python33, Python32, Python31, Python30, Python27, Python26]"
| "mro Python34 = [Python34, Python33, Python32, Python31, Python30, Python27, Python26]"
| "mro Python35 = [Python35, Python34, Python33, Python32, Python31, Python30, Python27, Python26]"
| "mro Python36 = [Python36, Python35, Python34, Python33, Python32, Python31, Python30, Python27,
                   Python26]"

definition issubclass :: "dialect \<Rightarrow> dialect \<Rightarrow> bool" where
  "issubclass d c = (c \<in> set (mro d))"

subsection \<open>Nodes\<close>

text \<open>
  One constructor for each node class the visitors name, with the fields of the class in
  the order of its \<^verbatim>\<open>_fields\<close>; a field the visitors never read is left out (the
  expression contexts, \<^verbatim>\<open>col_offset\<close>). Statements, expressions and exception handlers
  carry \<^verbatim>\<open>lineno\<close> as their last field, \<open>None\<close> when the attribute is missing or
  \<^verbatim>\<open>None\<close>. An optional field is \<open>None\<close> when the attribute is missing or \<^verbatim>\<open>None\<close>.

  The shape of some classes depends on the Python that built the tree:
  \<^item> \<open>With\<close> is the statement with \<^verbatim>\<open>context_expr\<close> and \<^verbatim>\<open>optional_vars\<close> (before 3.3),
    \<open>WithItems\<close> the one with \<^verbatim>\<open>items\<close>;
  \<^item> \<open>Raise\<close> holds \<^verbatim>\<open>exc\<close>, \<^verbatim>\<open>cause\<close> (Python 3) and \<^verbatim>\<open>type\<close>, \<^verbatim>\<open>inst\<close>, \<^verbatim>\<open>tback\<close>
    (Python 2), those of the other shape being \<open>None\<close>;
  \<^item> \<open>Call\<close> holds \<^verbatim>\<open>starargs\<close> and \<^verbatim>\<open>kwargs\<close>, \<open>None\<close> from 3.5 on;
  \<^item> \<open>arguments\<close> holds \<^verbatim>\<open>args\<close>, \<^verbatim>\<open>vararg\<close>, \<^verbatim>\<open>kwonlyargs\<close>, \<^verbatim>\<open>kw_defaults\<close>, \<^verbatim>\<open>kwarg\<close>,
    \<^verbatim>\<open>defaults\<close>; \<^verbatim>\<open>vararg\<close> and \<^verbatim>\<open>kwarg\<close> are strings before 3.4 and \<open>arg\<close> nodes after.
  \<open>str\<close> is a plain string standing where a node may stand (\<^verbatim>\<open>vararg\<close>, the name of
  an exception handler); \<^verbatim>\<open>NodeVisitor.visit\<close> sends it to \<^verbatim>\<open>visit_str\<close>. The identifier of
  a \<open>Name\<close> is a string.
\<close>

datatype singleton = PyNone | PyTrue | PyFalse

datatype (plugins only: size) node =
    Module "node list"
  | FunctionDef string node "node list" "node list" "node option" "int option"
  | AsyncFunctionDef string node "node list" "node list" "node option" "int option"
  | ClassDef string "node list" "node list option" "node list" "node list" "int option"
  | Return "node option" "int option"
  | Delete "node list" "int option"
  | Assign "node list" node "int option"
  | AugAssign node operator node "int option"
  | Print "node option" "node list" bool "int option"
  | For node node "node list" "node list" "int option"
  | AsyncFor node node "node list" "node list" "int option"
  | While node "node list" "node list" "int option"
  | If_stmt node "node list" "node list" "int option"
  | With node "node option" "node list" "int option"
  | WithItems "node list" "node list" "int option"
  | AsyncWith "node list" "node list" "int option"
  | Raise "node option" "node option" "node option" "node option" "node option" "int option"
  | TryExcept "node list" "node list" "node list" "int option"
  | TryFinally "node list" "node list" "int option"
  | Try "node list" "node list" "node list" "node list" "int option"
  | Assert node "node option" "int option"
  | Import "node list" "int option"
  | ImportFrom "string option" "node list" int "int option"
  | Global "string list" "int option"
  | Nonlocal "string list" "int option"
  | Expr node "int option"
  | Pass "int option"
  | Break "int option"
  | Continue "int option"
  | BoolOp operator "node list" "int option"
  | BinOp node operator node "int option"
  | UnaryOp operator node "int option"
  | Lambda node node "int option"
  | IfExp node node node "int option"
  | Dict "node option list" "node list" "int option"
  | Set "node list" "int option"
  | ListComp node "node list" "int option"
  | SetComp node "node list" "int option"
  | DictComp node node "node list" "int option"
  | GeneratorExp node "node list" "int option"
  | Await "node option" "int option"
  | Yield "node option" "int option"
  | YieldFrom node "int option"
  | Compare node "operator list" "node list" "int option"
  | Call node "node list" "node list" "node option" "node option" "int option"
  | Repr node "int option"
  | Num int "int option"
  | Str string "int option"
  | FormattedValue "node option" int "node option" "int option"
  | JoinedStr "node list option" "int option"
  | Bytes string "int option"
  | NameConstant singleton "int option"
  | Ellipsis "int option"
  | Attribute node string "int option"
  | Subscript node node "int option"
  | Starred node "int option"
  | Name string "int option"
  | List "node list" "int option"
  | Tuple "node list" "int option"
  | Slice "node option" "node option" "node option"
  | ExtSlice "node list"
  | Index node
  | comprehension node node "node list"
  | ExceptHandler "node option" "node option" "node list" "int option"
  | arguments "node list" "node option" "node list" "node list" "node option" "node list"
  | arg string "node option"
  | keyword "string option" node
  | alias_node string "string option"
  | withitem node "node option"
  | str string


primrec lineno :: "node \<Rightarrow> int option" where
  "lineno (FunctionDef name args bd decorator_list returns l) = l"
| "lineno (AsyncFunctionDef name args bd decorator_list returns l) = l"
| "lineno (ClassDef name bases keywords bd decorator_list l) = l"
| "lineno (Return v l) = l"
| "lineno (Delete targets l) = l"
| "lineno (Assign targets v l) = l"
| "lineno (AugAssign target op v l) = l"
| "lineno (Print dest vs nl l) = l"
| "lineno (For target iter bd orelse l) = l"
| "lineno (AsyncFor target iter bd orelse l) = l"
| "lineno (While test bd orelse l) = l"
| "lineno (If_stmt test bd orelse l) = l"
| "lineno (With context_expr optional_vars bd l) = l"
| "lineno (WithItems items bd l) = l"
| "lineno (AsyncWith items bd l) = l"
| "lineno (Raise exc cause type inst tback l) = l"
| "lineno (TryExcept bd handlers orelse l) = l"
| "lineno (TryFinally bd finalbody l) = l"
| "lineno (Try bd handlers orelse finalbody l) = l"
| "lineno (Assert test msg l) = l"
| "lineno (Import names l) = l"
| "lineno (ImportFrom module names level l) = l"
| "lineno (Global names l) = l"
| "lineno (Nonlocal names l) = l"
| "lineno (Expr v l) = l"
| "lineno (Pass l) = l"
| "lineno (Break l) = l"
| "lineno (Continue l) = l"
| "lineno (BoolOp op vs l) = l"
| "lineno (BinOp left op right l) = l"
| "lineno (UnaryOp op operand l) = l"
| "lineno (Lambda args bd l) = l"
| "lineno (IfExp test bd orelse l) = l"
| "lineno (Dict keys vs l) = l"
| "lineno (Set elts l) = l"
| "lineno (ListComp elt generators l) = l"
| "lineno (SetComp elt generators l) = l"
| "lineno (DictComp k v generators l) = l"
| "lineno (GeneratorExp elt generators l) = l"
| "lineno (Await v l) = l"
| "lineno (Yield v l) = l"
| "lineno (YieldFrom v l) = l"
| "lineno (Compare left ops comparators l) = l"
| "lineno (Call func args keywords starargs kwargs l) = l"
| "lineno (Repr v l) = l"
| "lineno (Num n l) = l"
| "lineno (Str s l) = l"
| "lineno (FormattedValue v conversion format_spec l) = l"
| "lineno (JoinedStr vs l) = l"
| "lineno (Bytes s l) = l"
| "lineno (NameConstant v l) = l"
| "lineno (Ellipsis l) = l"
| "lineno (Attribute v attr l) = l"
| "lineno (Subscript v slice l) = l"
| "lineno (Starred v l) = l"
| "lineno (Name ident l) = l"
| "lineno (List elts l) = l"
| "lineno (Tuple elts l) = l"
| "lineno (ExceptHandler type name bd l) = l"
| "lineno (Module bd) = None"
| "lineno (Slice lower upper step) = None"
| "lineno (ExtSlice dims) = None"
| "lineno (Index v) = None"
| "lineno (comprehension target iter ifs) = None"
| "lineno (arguments args vararg kwonlyargs kw_defaults kwarg defaults) = None"
| "lineno (arg a annotation) = None"
| "lineno (keyword a v) = None"
| "lineno (alias_node name asname) = None"
| "lineno (withitem context_expr optional_vars) = None"
| "lineno (str x) = None"


text \<open>\<^verbatim>\<open>isinstance(x, ast.AST)\<close>, and the three class tests the visitors make.\<close>

definition is_AST :: "node \<Rightarrow> bool" where
  "is_AST x = (case x of str _ \<Rightarrow> False | _ \<Rightarrow> True)"

definition is_Str :: "node \<Rightarrow> bool" where
  "is_Str x = (case x of Str _ _ \<Rightarrow> True | _ \<Rightarrow> False)"

definition is_Starred :: "node \<Rightarrow> bool" where
  "is_Starred x = (case x of Starred _ _ \<Rightarrow> True | _ \<Rightarrow> False)"

definition is_If :: "node \<Rightarrow> bool" where
  "is_If x = (case x of If_stmt _ _ _ _ \<Rightarrow> True | _ \<Rightarrow> False)"

text \<open>
  The test \<^verbatim>\<open>if x:\<close> on a child \<open>x\<close> (in \<^verbatim>\<open>visit_Return\<close>, \<^verbatim>\<open>visit_Yield\<close>, \<^verbatim>\<open>visit_Assert\<close>
  and \<^verbatim>\<open>visit_Dict\<close>): \<^verbatim>\<open>None\<close> is false and so is an empty string; every node object is
  true. \<open>truthy x\<close> is the child when it is true.
\<close>

definition truthy :: "node option \<Rightarrow> node option" where
  "truthy x = (if x = Some (str []) then None else x)"

subsection \<open>The methods of \<^verbatim>\<open>BaseSourceGeneratorNodeVisitor\<close>\<close>

text \<open>
  Each method is a definition of the same name. Where the method calls
  \<^verbatim>\<open>self.visit(child)\<close>, the definition takes the renderer of the child (a \<open>gen\<close>) in
  place of the child, a list of renderers for a list of children, and \<open>None\<close> or \<open>Some\<close>
  of a renderer for an optional child; the function \<open>visit\<close> below supplies them. What a
  method reads of a node besides (a name, a line number, the class of a child) is passed
  as it is.
\<close>

definition signature_arg :: "gen \<Rightarrow> gen option \<Rightarrow> cgen" where
  "signature_arg a deflt =
     run [write_comma,
          lift a,
          lift (case deflt of
                  Some dflt \<Rightarrow> run [write_out ''='' None, dflt]
                | None \<Rightarrow> Inr)]"

text \<open>\<^verbatim>\<open>'*' + node.vararg\<close> needs a string.\<close>

definition signature_vararg :: "node option \<Rightarrow> cgen" where
  "signature_vararg vararg =
     (case vararg of
        None \<Rightarrow> Inr
      | Some v \<Rightarrow>
          run [write_comma,
               case v of
                 str name \<Rightarrow> lift (write_out (''*'' @ name) None)
               | _ \<Rightarrow> raise TypeError])"

definition signature_kwarg :: "node option \<Rightarrow> cgen" where
  "signature_kwarg kwarg =
     (case kwarg of
        None \<Rightarrow> Inr
      | Some v \<Rightarrow>
          run [write_comma,
               case v of
                 str name \<Rightarrow> lift (write_out (''**'' @ name) None)
               | _ \<Rightarrow> raise TypeError])"

text \<open>
  \<^verbatim>\<open>signature\<close> receives the methods \<^verbatim>\<open>signature_arg\<close>, \<^verbatim>\<open>signature_vararg\<close> and
  \<^verbatim>\<open>signature_kwarg\<close> of the class of \<^verbatim>\<open>self\<close>, the first already applied to each
  parameter. \<open>args\<close> is the list of these, \<open>defaults\<close> the renderers of the defaults.
\<close>

definition signature :: "(gen option \<Rightarrow> cgen) list \<Rightarrow> gen list \<Rightarrow> cgen \<Rightarrow> cgen \<Rightarrow> gen" where
  "signature args defaults self_signature_vararg self_signature_kwarg =
     scoped (
       let padding = replicate (length args - length defaults) None
       in run [for_each (zip args (padding @ map Some defaults)) (\<lambda>(a, deflt). a deflt),
               self_signature_vararg,
               self_signature_kwarg])"

definition decorators :: "(int option \<times> gen) list \<Rightarrow> gen" where
  "decorators decorator_list =
     for_each decorator_list (\<lambda>(decorator_lineno, decorator).
       run [newline decorator_lineno, write_out ''@'' None, decorator])"

definition visit_Assign :: "gen list \<Rightarrow> gen \<Rightarrow> int option \<Rightarrow> gen" where
  "visit_Assign targets v l =
     run [newline l,
          for_each (enumerate 0 targets) (\<lambda>(idx, target).
            run [if_do (idx \<noteq> 0) (write_out '' = '' None), target]),
          write_out '' = '' None,
          v]"

definition visit_AugAssign :: "gen \<Rightarrow> operator \<Rightarrow> gen \<Rightarrow> int option \<Rightarrow> gen" where
  "visit_AugAssign target op v l =
     run [newline l,
          target,
          subscript BINOP_SYMBOLS op (\<lambda>symbol. write_out ('' '' @ symbol @ ''= '') None),
          v]"

text \<open>
  \<^verbatim>\<open>visit_ImportFrom\<close> reads \<^verbatim>\<open>name\<close> and \<^verbatim>\<open>asname\<close> of each entry itself; only an
  \<^verbatim>\<open>alias\<close> has both. \<open>import_name\<close> is the body of its loop.
\<close>

definition import_name :: "node \<Rightarrow> error + string" where
  "import_name x =
     (case x of
        alias_node name asname \<Rightarrow>
          Inr (case asname of
                 None \<Rightarrow> name
               | Some a \<Rightarrow> if a \<noteq> [] then name @ '' as '' @ a else name)
      | _ \<Rightarrow> Inl AttributeError)"

primrec import_names :: "node list \<Rightarrow> error + string list" where
  "import_names [] = Inr []"
| "import_names (x # xs) =
     (case import_name x of
        Inl e \<Rightarrow> Inl e
      | Inr name \<Rightarrow> (case import_names xs of Inl e \<Rightarrow> Inl e | Inr imports \<Rightarrow> Inr (name # imports)))"

definition visit_ImportFrom :: "string option \<Rightarrow> node list \<Rightarrow> int \<Rightarrow> int option \<Rightarrow> gen" where
  "visit_ImportFrom module names level l =
     run [newline l,
          case import_names names of
            Inl e \<Rightarrow> raise e
          | Inr imports \<Rightarrow>
              write_out (''from '' @ replicate (nat level) (CHR ''.'')
                         @ (case module of None \<Rightarrow> [] | Some m \<Rightarrow> m)
                         @ '' import '' @ join '', '' imports) None]"

definition visit_Import :: "gen list \<Rightarrow> int option \<Rightarrow> gen" where
  "visit_Import names l =
     run [newline l,
          for_each names (\<lambda>item. run [write_out ''import '' None, item])]"

text \<open>
  \<^verbatim>\<open>generic_visit\<close> visits the children of a node in the order of its fields; \<open>children\<close>
  are the renderers of those that are nodes.
\<close>

definition generic_visit :: "gen list \<Rightarrow> gen" where
  "generic_visit children = run children"

text \<open>
  \<open>v\<close> is the value of the statement, \<open>children\<close> the renderers of the child nodes of
  the statement: of its value, if that is a node.
\<close>

definition visit_Expr :: "node \<Rightarrow> gen list \<Rightarrow> int option \<Rightarrow> gen" where
  "visit_Expr v children l =
     (case v of
        Str s _ \<Rightarrow> docstring s
      | _ \<Rightarrow> run [newline l, generic_visit children])"

definition visit_keyword :: "string option \<Rightarrow> gen \<Rightarrow> gen" where
  "visit_keyword a v =
     run [case a of
            Some name \<Rightarrow> write_out (name @ ''='') None
          | None \<Rightarrow> write_out ''**'' None,
          v]"

definition x_prefixes :: "string list \<Rightarrow> gen" where
  "x_prefixes prefixes =
     run [write_out (join '' '' prefixes) None,
          if_do (prefixes \<noteq> []) (write_out '' '' None)]"

text \<open>\<open>args\<close> is \<^verbatim>\<open>self.signature(node.args)\<close>.\<close>

definition function_definition ::
  "string \<Rightarrow> gen \<Rightarrow> gen list \<Rightarrow> (int option \<times> gen) list \<Rightarrow> int option \<Rightarrow> string list \<Rightarrow> gen" where
  "function_definition name args bd decorator_list l prefixes =
     run [decorators decorator_list,
          newline l,
          x_prefixes prefixes,
          write_out (''def '' @ name @ ''('') l,
          args,
          write_out ''):'' None,
          body bd]"

definition visit_FunctionDef ::
  "string \<Rightarrow> gen \<Rightarrow> gen list \<Rightarrow> (int option \<times> gen) list \<Rightarrow> int option \<Rightarrow> gen" where
  "visit_FunctionDef name args bd decorator_list l =
     function_definition name args bd decorator_list l []"

definition visit_ClassDef ::
  "string \<Rightarrow> gen list \<Rightarrow> gen list \<Rightarrow> (int option \<times> gen) list \<Rightarrow> int option \<Rightarrow> gen" where
  "visit_ClassDef name bases bd decorator_list l =
     run [decorators decorator_list,
          newline l,
          write_out (''class '' @ name) l,
          scoped (run [for_each bases (\<lambda>base. run [paren_or_comma, lift base]),
                       read_flag (\<lambda>have_args. write_out (if have_args then ''):'' else '':'') None)]),
          body bd]"

definition for_loop ::
  "gen \<Rightarrow> gen \<Rightarrow> gen list \<Rightarrow> gen list \<Rightarrow> int option \<Rightarrow> string list \<Rightarrow> gen" where
  "for_loop target iter bd orelse l prefixes =
     run [newline l,
          x_prefixes prefixes,
          write_out ''for '' None,
          target,
          write_out '' in '' None,
          iter,
          write_out '':'' None,
          body_or_else bd orelse]"

definition visit_For :: "gen \<Rightarrow> gen \<Rightarrow> gen list \<Rightarrow> gen list \<Rightarrow> int option \<Rightarrow> gen" where
  "visit_For target iter bd orelse l = for_loop target iter bd orelse l []"

definition visit_While :: "gen \<Rightarrow> gen list \<Rightarrow> gen list \<Rightarrow> int option \<Rightarrow> gen" where
  "visit_While test bd orelse l =
     run [newline l, write_out ''while '' None, test, write_out '':'' None, body_or_else bd orelse]"

definition visit_Pass :: "int option \<Rightarrow> gen" where
  "visit_Pass l = run [newline l, write_out ''pass'' l]"

text \<open>
  In \<^verbatim>\<open>visit_Print\<close> the local \<^verbatim>\<open>want_comma\<close> is true from the second value on, and from
  the first when there is a \<^verbatim>\<open>dest\<close>.
\<close>

definition visit_Print :: "gen option \<Rightarrow> gen list \<Rightarrow> bool \<Rightarrow> int option \<Rightarrow> gen" where
  "visit_Print dest vs nl l =
     run [newline l,
          write_out ''print '' None,
          case dest of Some d \<Rightarrow> run [write_out ''>> '' None, d] | None \<Rightarrow> Inr,
          for_each (enumerate 0 vs) (\<lambda>(idx, v).
            run [if_do (\<not> (dest = None \<and> idx = 0)) (write_out '', '' None), v]),
          if_do (\<not> nl) (write_out '','' None)]"

text \<open>
  \<^verbatim>\<open>target is not node.targets[-1]\<close> compares objects; the targets of a list are taken to
  be distinct objects, so that only the last one is the last one.
\<close>

definition visit_Delete :: "gen list \<Rightarrow> int option \<Rightarrow> gen" where
  "visit_Delete targets l =
     run [newline l,
          write_out ''del '' None,
          for_each (enumerate 0 targets) (\<lambda>(idx, target).
            run [target, if_do (idx + 1 \<noteq> length targets) (write_out '', '' None)])]"

definition visit_Global :: "string list \<Rightarrow> int option \<Rightarrow> gen" where
  "visit_Global names l = run [newline l, write_out (''global '' @ join '', '' names) None]"

definition visit_Nonlocal :: "string list \<Rightarrow> int option \<Rightarrow> gen" where
  "visit_Nonlocal names l = run [newline l, write_out (''nonlocal '' @ join '', '' names) None]"

definition visit_Return :: "gen option \<Rightarrow> int option \<Rightarrow> gen" where
  "visit_Return v l =
     run [newline l,
          write_out ''return'' None,
          case v of Some x \<Rightarrow> run [write_out '' '' None, x] | None \<Rightarrow> Inr]"

definition visit_Break :: "int option \<Rightarrow> gen" where
  "visit_Break l = run [newline l, write_out ''break'' None]"

definition visit_Continue :: "int option \<Rightarrow> gen" where
  "visit_Continue l = run [newline l, write_out ''continue'' None]"

definition raise_type :: "gen \<Rightarrow> gen option \<Rightarrow> gen option \<Rightarrow> gen" where
  "raise_type type inst tback =
     run [write_out '' '' None,
          type,
          case inst of Some x \<Rightarrow> run [write_out '', '' None, x] | None \<Rightarrow> Inr,
          case tback of Some x \<Rightarrow> run [write_out '', '' None, x] | None \<Rightarrow> Inr]"

definition raise_exc :: "gen \<Rightarrow> gen option \<Rightarrow> gen" where
  "raise_exc exc cause =
     run [write_out '' '' None,
          exc,
          case cause of Some x \<Rightarrow> run [write_out '' from '' None, x] | None \<Rightarrow> Inr]"

definition visit_Raise ::
  "gen option \<Rightarrow> gen option \<Rightarrow> gen option \<Rightarrow> gen option \<Rightarrow> gen option \<Rightarrow> int option \<Rightarrow> gen" where
  "visit_Raise exc cause type inst tback l =
     run [newline l,
          write_out ''raise'' None,
          case exc of
            Some e \<Rightarrow> raise_exc e cause
          | None \<Rightarrow> (case type of Some t \<Rightarrow> raise_type t inst tback | None \<Rightarrow> Inr)]"

definition visit_Attribute :: "gen \<Rightarrow> string \<Rightarrow> gen" where
  "visit_Attribute v attr = run [v, write_out (''.'' @ attr) None]"

definition call_signature :: "gen list \<Rightarrow> gen list \<Rightarrow> gen option \<Rightarrow> gen option \<Rightarrow> gen" where
  "call_signature args keywords starargs kwargs =
     scoped (run
       [for_each args (\<lambda>a. run [write_comma, lift a]),
        for_each keywords (\<lambda>k. run [write_comma, lift k]),
        case starargs of
          Some x \<Rightarrow> run [write_comma, lift (write_out ''*'' None), lift x]
        | None \<Rightarrow> Inr,
        case kwargs of
          Some x \<Rightarrow> run [write_comma, lift (write_out ''**'' None), lift x]
        | None \<Rightarrow> Inr])"

text \<open>\<open>call_sig\<close> is \<^verbatim>\<open>self.call_signature(node)\<close>.\<close>

definition visit_Call :: "gen \<Rightarrow> gen \<Rightarrow> gen" where
  "visit_Call func call_sig = run [func, write_out ''('' None, call_sig, write_out '')'' None]"

definition visit_Name :: "string \<Rightarrow> int option \<Rightarrow> gen" where
  "visit_Name ident l = write_out ident l"

definition visit_str :: "string \<Rightarrow> gen" where
  "visit_str x = write_out x None"

definition visit_Str :: "string \<Rightarrow> gen" where
  "visit_Str s = write_out (repr_str s) None"

definition visit_Bytes :: "string \<Rightarrow> gen" where
  "visit_Bytes s = write_out (CHR ''b'' # repr_str s) None"

definition visit_Num :: "int \<Rightarrow> gen" where
  "visit_Num n = write_out (repr_int n) None"

text \<open>After the loop \<^verbatim>\<open>idx\<close> is the index of the last element, and \<open>-1\<close> for no element.\<close>

definition visit_Tuple :: "gen list \<Rightarrow> gen" where
  "visit_Tuple elts =
     (let idx = int (length elts) - 1
      in run [write_out ''('' None,
              for_each (enumerate 0 elts) (\<lambda>(idx, item).
                run [if_do (idx \<noteq> 0) (write_out '', '' None), item]),
              write_out (if idx \<noteq> 0 then '')'' else '',)'') None])"

definition sequence_visit :: "string \<Rightarrow> string \<Rightarrow> gen list \<Rightarrow> gen" where
  "sequence_visit left right elts =
     run [write_out left None,
          for_each (enumerate 0 elts) (\<lambda>(idx, item).
            run [if_do (idx \<noteq> 0) (write_out '', '' None), item]),
          write_out right None]"

definition visit_List :: "gen list \<Rightarrow> gen" where
  "visit_List = sequence_visit ''['' '']''"

definition visit_Set :: "gen list \<Rightarrow> gen" where
  "visit_Set = sequence_visit ''{'' ''}''"

definition visit_Dict :: "gen option list \<Rightarrow> gen list \<Rightarrow> gen" where
  "visit_Dict keys vs =
     run [write_out ''{'' None,
          for_each (enumerate 0 (zip keys vs)) (\<lambda>(idx, (k, v)).
            run [if_do (idx \<noteq> 0) (write_out '', '' None),
                 case k of
                   Some x \<Rightarrow> run [x, write_out '': '' None]
                 | None \<Rightarrow> write_out ''**'' None,
                 v]),
          write_out ''}'' None]"

definition visit_BinOp :: "gen \<Rightarrow> operator \<Rightarrow> gen \<Rightarrow> gen" where
  "visit_BinOp left op right =
     run [left,
          subscript BINOP_SYMBOLS op (\<lambda>symbol. write_out ('' '' @ symbol @ '' '') None),
          right]"

definition visit_BoolOp :: "operator \<Rightarrow> gen list \<Rightarrow> gen" where
  "visit_BoolOp op vs =
     run [write_out ''('' None,
          for_each (enumerate 0 vs) (\<lambda>(idx, v).
            run [if_do (idx \<noteq> 0)
                   (subscript BOOLOP_SYMBOLS op (\<lambda>symbol. write_out ('' '' @ symbol @ '' '') None)),
                 v]),
          write_out '')'' None]"

definition visit_Compare :: "gen \<Rightarrow> operator list \<Rightarrow> gen list \<Rightarrow> gen" where
  "visit_Compare left ops comparators =
     run [left,
          for_each (zip ops comparators) (\<lambda>(op, right).
            run [subscript CMPOP_SYMBOLS op (\<lambda>symbol. write_out ('' '' @ symbol @ '' '') None),
                 right])]"

definition visit_UnaryOp :: "operator \<Rightarrow> gen \<Rightarrow> gen" where
  "visit_UnaryOp op operand =
     run [write_out ''('' None,
          subscript UNARYOP_SYMBOLS op (\<lambda>symbol.
            run [write_out symbol None,
                 if_do (symbol = ''not'') (write_out '' '' None)]),
          operand,
          write_out '')'' None]"

definition visit_Subscript :: "gen \<Rightarrow> gen \<Rightarrow> gen" where
  "visit_Subscript v slice = run [v, write_out ''['' None, slice, write_out '']'' None]"

definition slice_lower :: "gen option \<Rightarrow> gen" where
  "slice_lower lower = (case lower of Some x \<Rightarrow> x | None \<Rightarrow> Inr)"

definition slice_upper :: "gen option \<Rightarrow> gen" where
  "slice_upper upper = (case upper of Some x \<Rightarrow> x | None \<Rightarrow> Inr)"

text \<open>\<open>step\<close> is the node, \<open>visit_step\<close> its renderer.\<close>

definition slice_step :: "node option \<Rightarrow> gen option \<Rightarrow> gen" where
  "slice_step step visit_step =
     (case visit_step of
        None \<Rightarrow> Inr
      | Some x \<Rightarrow>
          run [write_out '':'' None,
               if_do (\<not> (case step of Some (Name ident _) \<Rightarrow> ident = ''None'' | _ \<Rightarrow> False)) x])"

definition visit_Slice :: "gen option \<Rightarrow> gen option \<Rightarrow> node option \<Rightarrow> gen option \<Rightarrow> gen" where
  "visit_Slice lower upper step visit_step =
     run [slice_lower lower, write_out '':'' None, slice_upper upper, slice_step step visit_step]"

definition visit_ExtSlice :: "gen list \<Rightarrow> gen" where
  "visit_ExtSlice dims =
     for_each (enumerate 0 dims) (\<lambda>(idx, item).
       run [if_do (idx \<noteq> 0) (write_out '','' None), item])"

definition visit_Yield :: "gen option \<Rightarrow> gen" where
  "visit_Yield v =
     run [write_out ''yield'' None,
          case v of Some x \<Rightarrow> run [write_out '' '' None, x] | None \<Rightarrow> Inr]"

definition visit_Lambda :: "gen \<Rightarrow> gen \<Rightarrow> gen" where
  "visit_Lambda args bd = run [write_out ''lambda '' None, args, write_out '': '' None, bd]"

definition visit_Ellipsis :: gen where
  "visit_Ellipsis = write_out ''...'' None"

definition generator_visit :: "string \<Rightarrow> string \<Rightarrow> gen \<Rightarrow> gen list \<Rightarrow> gen" where
  "generator_visit left right elt generators =
     run [write_out left None, elt, for_each generators (\<lambda>c. c), write_out right None]"

definition visit_ListComp :: "gen \<Rightarrow> gen list \<Rightarrow> gen" where
  "visit_ListComp = generator_visit ''['' '']''"

definition visit_GeneratorExp :: "gen \<Rightarrow> gen list \<Rightarrow> gen" where
  "visit_GeneratorExp = generator_visit ''('' '')''"

definition visit_SetComp :: "gen \<Rightarrow> gen list \<Rightarrow> gen" where
  "visit_SetComp = generator_visit ''{'' ''}''"

definition visit_DictComp :: "gen \<Rightarrow> gen \<Rightarrow> gen list \<Rightarrow> gen" where
  "visit_DictComp k v generators =
     run [write_out ''{'' None, k, write_out '': '' None, v,
          for_each generators (\<lambda>c. c), write_out ''}'' None]"

definition visit_IfExp :: "gen \<Rightarrow> gen \<Rightarrow> gen \<Rightarrow> gen" where
  "visit_IfExp test bd orelse =
     run [bd, write_out '' if '' None, test, write_out '' else '' None, orelse]"

definition visit_Starred :: "gen \<Rightarrow> gen" where
  "visit_Starred v = run [write_out ''*'' None, v]"

definition visit_Repr :: "gen \<Rightarrow> gen" where
  "visit_Repr v = run [write_out [CHR 0x60] None, v, write_out [CHR 0x60] None]"

definition visit_alias :: "string \<Rightarrow> string option \<Rightarrow> gen" where
  "visit_alias name asname =
     run [write_out name None,
          case asname of Some a \<Rightarrow> write_out ('' as '' @ a) None | None \<Rightarrow> Inr]"

definition visit_comprehension :: "gen \<Rightarrow> gen \<Rightarrow> gen list \<Rightarrow> gen" where
  "visit_comprehension target iter ifs =
     run [write_out '' for '' None, target, write_out '' in '' None, iter,
          if_do (ifs \<noteq> []) (for_each ifs (\<lambda>if_x. run [write_out '' if '' None, if_x]))]"

definition visit_ExceptHandler :: "gen option \<Rightarrow> gen option \<Rightarrow> gen list \<Rightarrow> int option \<Rightarrow> gen" where
  "visit_ExceptHandler type name bd l =
     run [newline l,
          write_out ''except'' None,
          case type of
            Some t \<Rightarrow>
              run [write_out '' '' None, t,
                   case name of Some n \<Rightarrow> run [write_out '' as '' None, n] | None \<Rightarrow> Inr]
          | None \<Rightarrow> Inr,
          write_out '':'' None,
          body bd]"

definition visit_arg :: "string \<Rightarrow> gen" where
  "visit_arg a = write_out a None"

definition visit_Assert :: "gen \<Rightarrow> gen option \<Rightarrow> int option \<Rightarrow> gen" where
  "visit_Assert test msg l =
     run [newline l, write_out ''assert '' None, test,
          case msg of Some m \<Rightarrow> run [write_out '', '' None, m] | None \<Rightarrow> Inr]"

definition visit_TryExcept :: "gen list \<Rightarrow> gen list \<Rightarrow> int option \<Rightarrow> gen" where
  "visit_TryExcept bd handlers l =
     run [newline l, write_out ''try:'' None, body bd, for_each handlers (\<lambda>handler. handler)]"

definition visit_TryFinally :: "gen list \<Rightarrow> gen list \<Rightarrow> int option \<Rightarrow> gen" where
  "visit_TryFinally bd finalbody l =
     run [newline l, write_out ''try:'' None, body bd,
          newline l, write_out ''finally:'' None, body finalbody]"

definition visit_With :: "gen \<Rightarrow> gen option \<Rightarrow> gen list \<Rightarrow> int option \<Rightarrow> gen" where
  "visit_With context_expr optional_vars bd l =
     run [newline l, write_out ''with '' None, context_expr,
          case optional_vars of Some x \<Rightarrow> run [write_out '' as '' None, x] | None \<Rightarrow> Inr,
          write_out '':'' None,
          body bd]"


subsection \<open>The methods the dialect classes add or override\<close>

text \<open>\<^verbatim>\<open>SourceGeneratorNodeVisitorPython30\<close>. \<open>keywords\<close> is \<open>None\<close> for a node without them.\<close>

definition visit_ClassDef30 ::
  "string \<Rightarrow> gen list \<Rightarrow> gen list option \<Rightarrow> gen list \<Rightarrow> (int option \<times> gen) list \<Rightarrow> int option \<Rightarrow> gen" where
  "visit_ClassDef30 name bases keywords bd decorator_list l =
     run [decorators decorator_list,
          newline l,
          write_out (''class '' @ name) l,
          scoped (run [for_each bases (\<lambda>base. run [paren_or_comma, lift base]),
                       case keywords of
                         Some ks \<Rightarrow> for_each ks (\<lambda>k. run [paren_or_comma, lift k])
                       | None \<Rightarrow> Inr,
                       read_flag (\<lambda>have_args. write_out (if have_args then ''):'' else '':'') None)]),
          body bd]"

text \<open>\<open>annotation\<close> is the renderer of \<^verbatim>\<open>arg.annotation\<close> where the parameter has one.\<close>

definition signature_arg30 :: "gen \<Rightarrow> gen option \<Rightarrow> gen option \<Rightarrow> cgen" where
  "signature_arg30 a deflt annotation =
     run [signature_arg a deflt,
          lift (case annotation of
                  Some x \<Rightarrow> run [write_out '': '' None, x]
                | None \<Rightarrow> Inr)]"

definition visit_FunctionDef30 ::
  "string \<Rightarrow> gen \<Rightarrow> gen list \<Rightarrow> (int option \<times> gen) list \<Rightarrow> gen option \<Rightarrow> int option \<Rightarrow> gen" where
  "visit_FunctionDef30 name args bd decorator_list returns l =
     run [decorators decorator_list,
          newline l,
          write_out (''def '' @ name @ ''('') l,
          args,
          write_out '')'' None,
          case returns of Some r \<Rightarrow> run [write_out '' -> '' None, r] | None \<Rightarrow> Inr,
          write_out '':'' None,
          body bd]"

text \<open>\<^verbatim>\<open>SourceGeneratorNodeVisitorPython33\<close>.\<close>

definition visit_Try :: "gen list \<Rightarrow> gen list \<Rightarrow> gen list \<Rightarrow> int option \<Rightarrow> gen" where
  "visit_Try bd handlers finalbody l =
     run [newline l, write_out ''try:'' None, body bd,
          for_each handlers (\<lambda>handler. handler),
          if_do (finalbody \<noteq> [])
            (run [newline l, write_out ''finally:'' None, body finalbody])]"

text \<open>
  An entry of \<open>items\<close> is \<open>Some\<close> of the renderers of \<^verbatim>\<open>context_expr\<close> and
  \<^verbatim>\<open>optional_vars\<close>, or \<open>None\<close> for an object without these attributes (only \<open>withitem\<close>
  and \<open>With\<close> have them). The last entry is told by its position (see \<open>visit_Delete\<close>).
\<close>

definition visit_With33 :: "(gen \<times> gen option) option list \<Rightarrow> gen list \<Rightarrow> int option \<Rightarrow> gen" where
  "visit_With33 items bd l =
     run [newline l,
          write_out ''with '' None,
          for_each (enumerate 0 items) (\<lambda>(idx, with_item).
            case with_item of
              None \<Rightarrow> raise AttributeError
            | Some (context_expr, optional_vars) \<Rightarrow>
                run [context_expr,
                     case optional_vars of
                       Some x \<Rightarrow> run [write_out '' as '' None, x]
                     | None \<Rightarrow> Inr,
                     if_do (idx + 1 \<noteq> length items) (write_out '', '' None)]),
          write_out '':'' None,
          body bd]"

definition visit_YieldFrom :: "gen \<Rightarrow> gen" where
  "visit_YieldFrom v = run [write_out ''yield from '' None, v]"

text \<open>\<^verbatim>\<open>SourceGeneratorNodeVisitorPython34\<close>. \<open>getattr_arg\<close> is \<^verbatim>\<open>x.arg\<close>.\<close>

definition str_singleton :: "singleton \<Rightarrow> string" where
  "str_singleton v = (case v of PyNone \<Rightarrow> ''None'' | PyTrue \<Rightarrow> ''True'' | PyFalse \<Rightarrow> ''False'')"

definition visit_NameConstant :: "singleton \<Rightarrow> gen" where
  "visit_NameConstant v = write_out (str_singleton v) None"

definition getattr_arg :: "node \<Rightarrow> error + string option" where
  "getattr_arg x =
     (case x of
        arg a _ \<Rightarrow> Inr (Some a)
      | keyword a _ \<Rightarrow> Inr a
      | _ \<Rightarrow> Inl AttributeError)"

definition signature_vararg34 :: "node option \<Rightarrow> cgen" where
  "signature_vararg34 vararg =
     (case vararg of
        None \<Rightarrow> Inr
      | Some v \<Rightarrow>
          run [write_comma,
               case getattr_arg v of
                 Inl e \<Rightarrow> raise e
               | Inr None \<Rightarrow> raise TypeError
               | Inr (Some name) \<Rightarrow> lift (write_out (''*'' @ name) None)])"

definition signature_kwarg34 :: "node option \<Rightarrow> cgen" where
  "signature_kwarg34 kwarg =
     (case kwarg of
        None \<Rightarrow> Inr
      | Some v \<Rightarrow>
          run [write_comma,
               case getattr_arg v of
                 Inl e \<Rightarrow> raise e
               | Inr None \<Rightarrow> raise TypeError
               | Inr (Some name) \<Rightarrow> lift (write_out (''**'' @ name) None)])"

text \<open>\<^verbatim>\<open>SourceGeneratorNodeVisitorPython35\<close>.\<close>

definition visit_AsyncFunctionDef ::
  "string \<Rightarrow> gen \<Rightarrow> gen list \<Rightarrow> (int option \<times> gen) list \<Rightarrow> int option \<Rightarrow> gen" where
  "visit_AsyncFunctionDef name args bd decorator_list l =
     function_definition name args bd decorator_list l [''async'']"

definition visit_AsyncFor :: "gen \<Rightarrow> gen \<Rightarrow> gen list \<Rightarrow> gen list \<Rightarrow> int option \<Rightarrow> gen" where
  "visit_AsyncFor target iter bd orelse l = for_loop target iter bd orelse l [''async'']"

definition visit_Await :: "gen option \<Rightarrow> gen" where
  "visit_Await v = run [write_out ''await '' None, case v of Some x \<Rightarrow> x | None \<Rightarrow> Inr]"

text \<open>
  Each argument and each keyword comes with its node, for the tests
  \<^verbatim>\<open>isinstance(arg, ast.Starred)\<close> and \<^verbatim>\<open>keyword.arg\<close>. The lists \<^verbatim>\<open>starargs\<close> and \<^verbatim>\<open>kwargs\<close>
  collect, in order, what the first two loops put aside.
\<close>

definition truthy_arg :: "node \<Rightarrow> error + bool" where
  "truthy_arg k =
     (case getattr_arg k of
        Inl e \<Rightarrow> Inl e
      | Inr None \<Rightarrow> Inr False
      | Inr (Some name) \<Rightarrow> Inr (name \<noteq> []))"

definition call_signature35 :: "(node \<times> gen) list \<Rightarrow> (node \<times> gen) list \<Rightarrow> gen" where
  "call_signature35 args keywords =
     (let starargs = filter (\<lambda>(x, a). is_Starred x) args;
          kwargs = filter (\<lambda>(x, k). truthy_arg x = Inr False) keywords
      in scoped (run
           [for_each args (\<lambda>(x, a).
              if is_Starred x then Inr else run [write_comma, lift a]),
            for_each keywords (\<lambda>(x, k).
              case truthy_arg x of
                Inl e \<Rightarrow> raise e
              | Inr True \<Rightarrow> run [write_comma, lift k]
              | Inr False \<Rightarrow> Inr),
            for_each starargs (\<lambda>(x, stararg). run [write_comma, lift stararg]),
            for_each kwargs (\<lambda>(x, kwarg). run [write_comma, lift kwarg])]))"

text \<open>\<^verbatim>\<open>SourceGeneratorNodeVisitorPython36\<close>. Each value comes with its node.\<close>

definition visit_JoinedStr :: "(node \<times> gen) list option \<Rightarrow> gen" where
  "visit_JoinedStr vs =
     (case vs of
        None \<Rightarrow> Inr
      | Some items \<Rightarrow>
          run [write_out [CHR ''f'', CHR 0x27] None,
               for_each items (\<lambda>(x, item).
                 case x of
                   Str s _ \<Rightarrow> write_out (rstrip (lstrip s (CHR 0x27)) (CHR 0x27)) None
                 | _ \<Rightarrow> item),
               write_out [CHR 0x27] None])"

definition visit_FormattedValue :: "gen option \<Rightarrow> gen" where
  "visit_FormattedValue v =
     (case v of
        None \<Rightarrow> Inr
      | Some x \<Rightarrow> run [write_out ''{'' None, x, write_out ''}'' None])"

subsection \<open>Dispatch\<close>

text \<open>
  \<^verbatim>\<open>NodeVisitor.visit\<close> calls the method \<^verbatim>\<open>visit_\<close> followed by the name of the node's class
  if the visitor has one, and \<^verbatim>\<open>generic_visit\<close> otherwise. \<open>visit d\<close> is that method for an
  instance of the class \<open>d\<close>: one equation for each node class, with the test \<open>has_rule\<close>
  for the classes that not every visitor has a method for, and naming the class that
  overrides a method where one does.

  \<open>self_signature d\<close> is \<^verbatim>\<open>self.signature(node.args)\<close>, which reads the fields of an
  \<^verbatim>\<open>arguments\<close> node; \<open>visit_If_orelse d\<close> is the \<^verbatim>\<open>while\<close> loop of \<^verbatim>\<open>visit_If\<close>, which turns
  an \<^verbatim>\<open>else\<close> branch that is one \<^verbatim>\<open>if\<close> statement into an \<^verbatim>\<open>elif\<close>.
\<close>

text \<open>
  \<^verbatim>\<open>ast.iter_child_nodes\<close>: the nodes that the fields of a node hold, in the order of the
  fields. \<^verbatim>\<open>generic_visit\<close> visits these. (An operator or an expression context is a
  node with no field and no method here, so that visiting it writes nothing; they are
  left out.)
\<close>

primrec iter_child_nodes :: "node \<Rightarrow> node list" where
  "iter_child_nodes (Module bd) = filter is_AST bd"
| "iter_child_nodes (FunctionDef name args bd decorator_list returns l) =
     filter is_AST ([args] @ bd @ decorator_list @ opt returns)"
| "iter_child_nodes (AsyncFunctionDef name args bd decorator_list returns l) =
     filter is_AST ([args] @ bd @ decorator_list @ opt returns)"
| "iter_child_nodes (ClassDef name bases keywords bd decorator_list l) =
     filter is_AST (bases @ (case keywords of None \<Rightarrow> [] | Some ks \<Rightarrow> ks) @ bd @ decorator_list)"
| "iter_child_nodes (Return v l) = filter is_AST (opt v)"
| "iter_child_nodes (Delete targets l) = filter is_AST targets"
| "iter_child_nodes (Assign targets v l) = filter is_AST (targets @ [v])"
| "iter_child_nodes (AugAssign target op v l) = filter is_AST [target, v]"
| "iter_child_nodes (Print dest vs nl l) = filter is_AST (opt dest @ vs)"
| "iter_child_nodes (For target iter bd orelse l) = filter is_AST ([target, iter] @ bd @ orelse)"
| "iter_child_nodes (AsyncFor target iter bd orelse l) =
     filter is_AST ([target, iter] @ bd @ orelse)"
| "iter_child_nodes (While test bd orelse l) = filter is_AST ([test] @ bd @ orelse)"
| "iter_child_nodes (If_stmt test bd orelse l) = filter is_AST ([test] @ bd @ orelse)"
| "iter_child_nodes (With context_expr optional_vars bd l) =
     filter is_AST ([context_expr] @ opt optional_vars @ bd)"
| "iter_child_nodes (WithItems items bd l) = filter is_AST (items @ bd)"
| "iter_child_nodes (AsyncWith items bd l) = filter is_AST (items @ bd)"
| "iter_child_nodes (Raise exc cause type inst tback l) =
     filter is_AST (opt exc @ opt cause @ opt type @ opt inst @ opt tback)"
| "iter_child_nodes (TryExcept bd handlers orelse l) = filter is_AST (bd @ handlers @ orelse)"
| "iter_child_nodes (TryFinally bd finalbody l) = filter is_AST (bd @ finalbody)"
| "iter_child_nodes (Try bd handlers orelse finalbody l) =
     filter is_AST (bd @ handlers @ orelse @ finalbody)"
| "iter_child_nodes (Assert test msg l) = filter is_AST ([test] @ opt msg)"
| "iter_child_nodes (Import names l) = filter is_AST names"
| "iter_child_nodes (ImportFrom module names level l) = filter is_AST names"
| "iter_child_nodes (Global names l) = []"
| "iter_child_nodes (Nonlocal names l) = []"
| "iter_child_nodes (Expr v l) = filter is_AST [v]"
| "iter_child_nodes (Pass l) = []"
| "iter_child_nodes (Break l) = []"
| "iter_child_nodes (Continue l) = []"
| "iter_child_nodes (BoolOp op vs l) = filter is_AST vs"
| "iter_child_nodes (BinOp left op right l) = filter is_AST [left, right]"
| "iter_child_nodes (UnaryOp op operand l) = filter is_AST [operand]"
| "iter_child_nodes (Lambda args bd l) = filter is_AST [args, bd]"
| "iter_child_nodes (IfExp test bd orelse l) = filter is_AST [test, bd, orelse]"
| "iter_child_nodes (Dict keys vs l) = filter is_AST (concat (map opt keys) @ vs)"
| "iter_child_nodes (Set elts l) = filter is_AST elts"
| "iter_child_nodes (ListComp elt generators l) = filter is_AST (elt # generators)"
| "iter_child_nodes (SetComp elt generators l) = filter is_AST (elt # generators)"
| "iter_child_nodes (DictComp k v generators l) = filter is_AST ([k, v] @ generators)"
| "iter_child_nodes (GeneratorExp elt generators l) = filter is_AST (elt # generators)"
| "iter_child_nodes (Await v l) = filter is_AST (opt v)"
| "iter_child_nodes (Yield v l) = filter is_AST (opt v)"
| "iter_child_nodes (YieldFrom v l) = filter is_AST [v]"
| "iter_child_nodes (Compare left ops comparators l) = filter is_AST (left # comparators)"
| "iter_child_nodes (Call func args keywords starargs kwargs l) =
     filter is_AST ([func] @ args @ keywords @ opt starargs @ opt kwargs)"
| "iter_child_nodes (Repr v l) = filter is_AST [v]"
| "iter_child_nodes (Num n l) = []"
| "iter_child_nodes (Str s l) = []"
| "iter_child_nodes (FormattedValue v conversion format_spec l) =
     filter is_AST (opt v @ opt format_spec)"
| "iter_child_nodes (JoinedStr vs l) =
     filter is_AST (case vs of None \<Rightarrow> [] | Some items \<Rightarrow> items)"
| "iter_child_nodes (Bytes s l) = []"
| "iter_child_nodes (NameConstant v l) = []"
| "iter_child_nodes (Ellipsis l) = []"
| "iter_child_nodes (Attribute v attr l) = filter is_AST [v]"
| "iter_child_nodes (Subscript v slice l) = filter is_AST [v, slice]"
| "iter_child_nodes (Starred v l) = filter is_AST [v]"
| "iter_child_nodes (Name ident l) = []"
| "iter_child_nodes (List elts l) = filter is_AST elts"
| "iter_child_nodes (Tuple elts l) = filter is_AST elts"
| "iter_child_nodes (Slice lower upper step) = filter is_AST (opt lower @ opt upper @ opt step)"
| "iter_child_nodes (ExtSlice dims) = filter is_AST dims"
| "iter_child_nodes (Index v) = filter is_AST [v]"
| "iter_child_nodes (comprehension target iter ifs) = filter is_AST ([target, iter] @ ifs)"
| "iter_child_nodes (ExceptHandler type name bd l) = filter is_AST (opt type @ opt name @ bd)"
| "iter_child_nodes (arguments args vararg kwonlyargs kw_defaults kwarg defaults) =
     filter is_AST (args @ opt vararg @ kwonlyargs @ kw_defaults @ opt kwarg @ defaults)"
| "iter_child_nodes (arg a annotation) = filter is_AST (opt annotation)"
| "iter_child_nodes (keyword a v) = filter is_AST [v]"
| "iter_child_nodes (alias_node name asname) = []"
| "iter_child_nodes (withitem context_expr optional_vars) =
     filter is_AST ([context_expr] @ opt optional_vars)"
| "iter_child_nodes (str x) = []"

text \<open>
  \<open>has_rule d node\<close>: an instance of the class \<open>d\<close> has a method named \<^verbatim>\<open>visit_\<close> followed
  by the name of the class of \<open>node\<close>. The base class defines one for most classes; the
  class that first defines it is named for the others; no class defines one for
  \<^verbatim>\<open>Module\<close>, \<^verbatim>\<open>AsyncWith\<close>, \<^verbatim>\<open>Index\<close>, \<^verbatim>\<open>arguments\<close> and \<^verbatim>\<open>withitem\<close>.
\<close>

primrec has_rule :: "dialect \<Rightarrow> node \<Rightarrow> bool" where
  "has_rule d (Module bd) = False"
| "has_rule d (FunctionDef name args bd decorator_list returns l) = True"
| "has_rule d (AsyncFunctionDef name args bd decorator_list returns l) = issubclass d Python35"
| "has_rule d (ClassDef name bases keywords bd decorator_list l) = True"
| "has_rule d (Return v l) = True"
| "has_rule d (Delete targets l) = True"
| "has_rule d (Assign targets v l) = True"
| "has_rule d (AugAssign target op v l) = True"
| "has_rule d (Print dest vs nl l) = True"
| "has_rule d (For target iter bd orelse l) = True"
| "has_rule d (AsyncFor target iter bd orelse l) = issubclass d Python35"
| "has_rule d (While test bd orelse l) = True"
| "has_rule d (If_stmt test bd orelse l) = True"
| "has_rule d (With context_expr optional_vars bd l) = True"
| "has_rule d (WithItems items bd l) = True"
| "has_rule d (AsyncWith items bd l) = False"
| "has_rule d (Raise exc cause type inst tback l) = True"
| "has_rule d (TryExcept bd handlers orelse l) = True"
| "has_rule d (TryFinally bd finalbody l) = True"
| "has_rule d (Try bd handlers orelse finalbody l) = issubclass d Python33"
| "has_rule d (Assert test msg l) = True"
| "has_rule d (Import names l) = True"
| "has_rule d (ImportFrom module names level l) = True"
| "has_rule d (Global names l) = True"
| "has_rule d (Nonlocal names l) = True"
| "has_rule d (Expr v l) = True"
| "has_rule d (Pass l) = True"
| "has_rule d (Break l) = True"
| "has_rule d (Continue l) = True"
| "has_rule d (BoolOp op vs l) = True"
| "has_rule d (BinOp left op right l) = True"
| "has_rule d (UnaryOp op operand l) = True"
| "has_rule d (Lambda args bd l) = True"
| "has_rule d (IfExp test bd orelse l) = True"
| "has_rule d (Dict keys vs l) = True"
| "has_rule d (Set elts l) = True"
| "has_rule d (ListComp elt generators l) = True"
| "has_rule d (SetComp elt generators l) = True"
| "has_rule d (DictComp k v generators l) = True"
| "has_rule d (GeneratorExp elt generators l) = True"
| "has_rule d (Await v l) = issubclass d Python35"
| "has_rule d (Yield v l) = True"
| "has_rule d (YieldFrom v l) = issubclass d Python33"
| "has_rule d (Compare left ops comparators l) = True"
| "has_rule d (Call func args keywords starargs kwargs l) = True"
| "has_rule d (Repr v l) = True"
| "has_rule d (Num n l) = True"
| "has_rule d (Str s l) = True"
| "has_rule d (FormattedValue v conversion format_spec l) = issubclass d Python36"
| "has_rule d (JoinedStr vs l) = issubclass d Python36"
| "has_rule d (Bytes s l) = True"
| "has_rule d (NameConstant v l) = issubclass d Python34"
| "has_rule d (Ellipsis l) = True"
| "has_rule d (Attribute v attr l) = True"
| "has_rule d (Subscript v slice l) = True"
| "has_rule d (Starred v l) = True"
| "has_rule d (Name ident l) = True"
| "has_rule d (List elts l) = True"
| "has_rule d (Tuple elts l) = True"
| "has_rule d (Slice lower upper step) = True"
| "has_rule d (ExtSlice dims) = True"
| "has_rule d (Index v) = False"
| "has_rule d (comprehension target iter ifs) = True"
| "has_rule d (ExceptHandler type name bd l) = True"
| "has_rule d (arguments args vararg kwonlyargs kw_defaults kwarg defaults) = False"
| "has_rule d (arg a annotation) = True"
| "has_rule d (keyword a v) = True"
| "has_rule d (alias_node name asname) = True"
| "has_rule d (withitem context_expr optional_vars) = False"
| "has_rule d (str x) = True"


function visit :: "dialect \<Rightarrow> node \<Rightarrow> gen"
  and self_signature :: "dialect \<Rightarrow> node \<Rightarrow> gen"
  and visit_If_orelse :: "dialect \<Rightarrow> node list \<Rightarrow> gen"
where
  "visit d (Module bd) = generic_visit (map (visit d) (iter_child_nodes (Module bd)))"
| "visit d (FunctionDef name args bd decorator_list returns l) =
     (if issubclass d Python30
      then visit_FunctionDef30 name (self_signature d args) (map (visit d) bd)
             (map (\<lambda>x. (lineno x, visit d x)) decorator_list) (map_option (visit d) returns) l
      else visit_FunctionDef name (self_signature d args) (map (visit d) bd)
             (map (\<lambda>x. (lineno x, visit d x)) decorator_list) l)"
| "visit d (AsyncFunctionDef name args bd decorator_list returns l) =
     (if has_rule d (AsyncFunctionDef name args bd decorator_list returns l)
      then visit_AsyncFunctionDef name (self_signature d args) (map (visit d) bd)
             (map (\<lambda>x. (lineno x, visit d x)) decorator_list) l
      else generic_visit
             (map (visit d)
                (iter_child_nodes (AsyncFunctionDef name args bd decorator_list returns l))))"
| "visit d (ClassDef name bases keywords bd decorator_list l) =
     (if issubclass d Python30
      then visit_ClassDef30 name (map (visit d) bases) (map_option (map (visit d)) keywords)
             (map (visit d) bd) (map (\<lambda>x. (lineno x, visit d x)) decorator_list) l
      else visit_ClassDef name (map (visit d) bases) (map (visit d) bd)
             (map (\<lambda>x. (lineno x, visit d x)) decorator_list) l)"
| "visit d (Return v l) = visit_Return (map_option (visit d) (truthy v)) l"
| "visit d (Delete targets l) = visit_Delete (map (visit d) targets) l"
| "visit d (Assign targets v l) = visit_Assign (map (visit d) targets) (visit d v) l"
| "visit d (AugAssign target op v l) = visit_AugAssign (visit d target) op (visit d v) l"
| "visit d (Print dest vs nl l) = visit_Print (map_option (visit d) dest) (map (visit d) vs) nl l"
| "visit d (For target iter bd orelse l) =
     visit_For (visit d target) (visit d iter) (map (visit d) bd) (map (visit d) orelse) l"
| "visit d (AsyncFor target iter bd orelse l) =
     (if has_rule d (AsyncFor target iter bd orelse l)
      then visit_AsyncFor (visit d target) (visit d iter) (map (visit d) bd)
             (map (visit d) orelse) l
      else generic_visit (map (visit d) (iter_child_nodes (AsyncFor target iter bd orelse l))))"
| "visit d (While test bd orelse l) =
     visit_While (visit d test) (map (visit d) bd) (map (visit d) orelse) l"
| "visit d (If_stmt test bd orelse l) =
     run [newline l,
          write_out ''if '' None,
          visit d test,
          write_out '':'' None,
          body (map (visit d) bd),
          visit_If_orelse d orelse]"
| "visit d (With context_expr optional_vars bd l) =
     (if issubclass d Python33
      then run [newline l, write_out ''with '' None, raise AttributeError]
      else visit_With (visit d context_expr) (map_option (visit d) optional_vars)
             (map (visit d) bd) l)"
| "visit d (WithItems items bd l) =
     (if issubclass d Python33
      then visit_With33
             (map (\<lambda>with_item.
                     case with_item of
                       withitem context_expr optional_vars \<Rightarrow>
                         Some (visit d context_expr, map_option (visit d) optional_vars)
                     | With context_expr optional_vars bd' l' \<Rightarrow>
                         Some (visit d context_expr, map_option (visit d) optional_vars)
                     | _ \<Rightarrow> None) items)
             (map (visit d) bd) l
      else run [newline l, write_out ''with '' None, raise AttributeError])"
| "visit d (AsyncWith items bd l) =
     generic_visit (map (visit d) (iter_child_nodes (AsyncWith items bd l)))"
| "visit d (Raise exc cause type inst tback l) =
     visit_Raise (map_option (visit d) exc) (map_option (visit d) cause)
       (map_option (visit d) type) (map_option (visit d) inst) (map_option (visit d) tback) l"
| "visit d (TryExcept bd handlers orelse l) =
     visit_TryExcept (map (visit d) bd) (map (visit d) handlers) l"
| "visit d (TryFinally bd finalbody l) =
     visit_TryFinally (map (visit d) bd) (map (visit d) finalbody) l"
| "visit d (Try bd handlers orelse finalbody l) =
     (if has_rule d (Try bd handlers orelse finalbody l)
      then visit_Try (map (visit d) bd) (map (visit d) handlers) (map (visit d) finalbody) l
      else generic_visit (map (visit d) (iter_child_nodes (Try bd handlers orelse finalbody l))))"
| "visit d (Assert test msg l) =
     visit_Assert (visit d test) (map_option (visit d) (truthy msg)) l"
| "visit d (Import names l) = visit_Import (map (visit d) names) l"
| "visit d (ImportFrom module names level l) = visit_ImportFrom module names level l"
| "visit d (Global names l) = visit_Global names l"
| "visit d (Nonlocal names l) = visit_Nonlocal names l"
| "visit d (Expr v l) = visit_Expr v (map (visit d) (iter_child_nodes (Expr v l))) l"
| "visit d (Pass l) = visit_Pass l"
| "visit d (Break l) = visit_Break l"
| "visit d (Continue l) = visit_Continue l"
| "visit d (BoolOp op vs l) = visit_BoolOp op (map (visit d) vs)"
| "visit d (BinOp left op right l) = visit_BinOp (visit d left) op (visit d right)"
| "visit d (UnaryOp op operand l) = visit_UnaryOp op (visit d operand)"
| "visit d (Lambda args bd l) = visit_Lambda (self_signature d args) (visit d bd)"
| "visit d (IfExp test bd orelse l) = visit_IfExp (visit d test) (visit d bd) (visit d orelse)"
| "visit d (Dict keys vs l) =
     visit_Dict (map (\<lambda>k. map_option (visit d) (truthy k)) keys) (map (visit d) vs)"
| "visit d (Set elts l) = visit_Set (map (visit d) elts)"
| "visit d (ListComp elt generators l) = visit_ListComp (visit d elt) (map (visit d) generators)"
| "visit d (SetComp elt generators l) = visit_SetComp (visit d elt) (map (visit d) generators)"
| "visit d (DictComp k v generators l) =
     visit_DictComp (visit d k) (visit d v) (map (visit d) generators)"
| "visit d (GeneratorExp elt generators l) =
     visit_GeneratorExp (visit d elt) (map (visit d) generators)"
| "visit d (Await v l) =
     (if has_rule d (Await v l)
      then visit_Await (map_option (visit d) v)
      else generic_visit (map (visit d) (iter_child_nodes (Await v l))))"
| "visit d (Yield v l) = visit_Yield (map_option (visit d) (truthy v))"
| "visit d (YieldFrom v l) =
     (if has_rule d (YieldFrom v l)
      then visit_YieldFrom (visit d v)
      else generic_visit (map (visit d) (iter_child_nodes (YieldFrom v l))))"
| "visit d (Compare left ops comparators l) =
     visit_Compare (visit d left) ops (map (visit d) comparators)"
| "visit d (Call func args keywords starargs kwargs l) =
     visit_Call (visit d func)
       (if issubclass d Python35
        then call_signature35 (map (\<lambda>x. (x, visit d x)) args) (map (\<lambda>x. (x, visit d x)) keywords)
        else call_signature (map (visit d) args) (map (visit d) keywords)
               (map_option (visit d) starargs) (map_option (visit d) kwargs))"
| "visit d (Repr v l) = visit_Repr (visit d v)"
| "visit d (Num n l) = visit_Num n"
| "visit d (Str s l) = visit_Str s"
| "visit d (FormattedValue v conversion format_spec l) =
     (if has_rule d (FormattedValue v conversion format_spec l)
      then visit_FormattedValue (map_option (visit d) v)
      else generic_visit
             (map (visit d) (iter_child_nodes (FormattedValue v conversion format_spec l))))"
| "visit d (JoinedStr vs l) =
     (if has_rule d (JoinedStr vs l)
      then visit_JoinedStr (map_option (map (\<lambda>x. (x, visit d x))) vs)
      else generic_visit (map (visit d) (iter_child_nodes (JoinedStr vs l))))"
| "visit d (Bytes s l) = visit_Bytes s"
| "visit d (NameConstant v l) =
     (if has_rule d (NameConstant v l)
      then visit_NameConstant v
      else generic_visit (map (visit d) (iter_child_nodes (NameConstant v l))))"
| "visit d (Ellipsis l) = visit_Ellipsis"
| "visit d (Attribute v attr l) = visit_Attribute (visit d v) attr"
| "visit d (Subscript v slice l) = visit_Subscript (visit d v) (visit d slice)"
| "visit d (Starred v l) = visit_Starred (visit d v)"
| "visit d (Name ident l) = visit_Name ident l"
| "visit d (List elts l) = visit_List (map (visit d) elts)"
| "visit d (Tuple elts l) = visit_Tuple (map (visit d) elts)"
| "visit d (Slice lower upper step) =
     visit_Slice (map_option (visit d) lower) (map_option (visit d) upper) step
       (map_option (visit d) step)"
| "visit d (ExtSlice dims) = visit_ExtSlice (map (visit d) dims)"
| "visit d (Index v) = generic_visit (map (visit d) (iter_child_nodes (Index v)))"
| "visit d (comprehension target iter ifs) =
     visit_comprehension (visit d target) (visit d iter) (map (visit d) ifs)"
| "visit d (ExceptHandler type name bd l) =
     visit_ExceptHandler (map_option (visit d) type) (map_option (visit d) name)
       (map (visit d) bd) l"
| "visit d (arguments args vararg kwonlyargs kw_defaults kwarg defaults) =
     generic_visit (map (visit d)
       (iter_child_nodes (arguments args vararg kwonlyargs kw_defaults kwarg defaults)))"
| "visit d (arg a annotation) = visit_arg a"
| "visit d (keyword a v) = visit_keyword a (visit d v)"
| "visit d (alias_node name asname) = visit_alias name asname"
| "visit d (withitem context_expr optional_vars) =
     generic_visit (map (visit d) (iter_child_nodes (withitem context_expr optional_vars)))"
| "visit d (str x) = visit_str x"
| "self_signature d node =
     (case node of
        arguments args vararg kwonlyargs kw_defaults kwarg defaults \<Rightarrow>
          signature
            (map (\<lambda>a deflt.
                    if issubclass d Python30
                    then signature_arg30 (visit d a) deflt
                           (case a of
                              arg name (Some annotation) \<Rightarrow> Some (visit d annotation)
                            | _ \<Rightarrow> None)
                    else signature_arg (visit d a) deflt) args)
            (map (visit d) defaults)
            (if issubclass d Python34 then signature_vararg34 vararg else signature_vararg vararg)
            (if issubclass d Python34 then signature_kwarg34 kwarg else signature_kwarg kwarg)
      | _ \<Rightarrow> raise AttributeError)"
| "visit_If_orelse d else_x =
     (case else_x of
        [] \<Rightarrow> Inr
      | x # xs \<Rightarrow>
          if xs = [] \<and> is_If x
          then (case x of
                  If_stmt test bd orelse l \<Rightarrow>
                    run [newline None,
                         write_out ''elif '' None,
                         visit d test,
                         write_out '':'' None,
                         body (map (visit d) bd),
                         visit_If_orelse d orelse]
                | _ \<Rightarrow> Inr)
          else run [newline None, write_out ''else:'' None, body (map (visit d) else_x)])"

  by pat_completeness auto

termination
  by (relation "measure (\<lambda>x. case x of
          Inl (d, n) \<Rightarrow> size n
        | Inr (Inl (d, n)) \<Rightarrow> size n
        | Inr (Inr (d, ns)) \<Rightarrow> size_list size ns)")
     (auto simp: termination_simp opt_def truthy_def split: if_splits option.splits)

text \<open>
  \<^verbatim>\<open>to_source\<close>: a fresh visitor of the class chosen for the running Python renders the
  node; the text is the concatenation of the fragments.
\<close>

definition to_source :: "dialect \<Rightarrow> node \<Rightarrow> string \<Rightarrow> error + string" where
  "to_source d node indent =
     (case visit d node (init indent) of
        Inl e \<Rightarrow> Inl e
      | Inr generator \<Rightarrow> Inr (concat (result generator)))"

section \<open>Notions used in the statements\<close>

text \<open>
  \<open>comma_separated\<close> is a list of renderers run in order, with \<^verbatim>\<open>', '\<close> written before each
  but the first.
\<close>

fun comma_separated :: "gen list \<Rightarrow> gen" where
  "comma_separated [] = Inr"
| "comma_separated (g # gs) = run (g # map (\<lambda>h. run [write_out '', '' None, h]) gs)"

text \<open>The same with any separator.\<close>

fun separated :: "string \<Rightarrow> gen list \<Rightarrow> gen" where
  "separated sep [] = Inr"
| "separated sep (g # gs) = run (g # map (\<lambda>h. run [write_out sep None, h]) gs)"

text \<open>
  A \<open>keyword\<close> node is \<open>named\<close> when its \<^verbatim>\<open>arg\<close> is a name (not \<^verbatim>\<open>None\<close>, not empty);
  one with \<^verbatim>\<open>arg = None\<close> is the spread \<^verbatim>\<open>**value\<close>.
\<close>

definition is_keyword :: "node \<Rightarrow> bool" where
  "is_keyword x = (case x of keyword _ _ \<Rightarrow> True | _ \<Rightarrow> False)"

definition named :: "node \<Rightarrow> bool" where
  "named k = (case k of keyword (Some name) _ \<Rightarrow> name \<noteq> [] | _ \<Rightarrow> False)"

text \<open>
  A parameter of a signature as it is to be rendered: the parameter alone when it has no
  default, and the parameter, \<^verbatim>\<open>=\<close> and the default when it has one. \<open>annotated\<close> tells the
  parameters that carry an annotation (an \<open>arg\<close> whose \<^verbatim>\<open>annotation\<close> is not \<^verbatim>\<open>None\<close>).
\<close>

definition parameter :: "dialect \<Rightarrow> node \<Rightarrow> node option \<Rightarrow> gen" where
  "parameter d a deflt =
     run ([visit d a]
          @ (case deflt of Some x \<Rightarrow> [write_out ''='' None, visit d x] | None \<Rightarrow> []))"

definition annotated :: "node \<Rightarrow> bool" where
  "annotated a = (case a of arg name (Some annotation) \<Rightarrow> True | _ \<Rightarrow> False)"

text \<open>
  The parameter \<^verbatim>\<open>*name\<close> or \<^verbatim>\<open>**name\<close>: before \<^verbatim>\<open>SourceGeneratorNodeVisitorPython34\<close> the
  field holds the name, from there on an object whose \<^verbatim>\<open>arg\<close> is the name.
\<close>

definition star_parameter :: "dialect \<Rightarrow> string \<Rightarrow> node \<Rightarrow> gen" where
  "star_parameter d stars v =
     (if issubclass d Python34
      then (case getattr_arg v of
              Inl e \<Rightarrow> raise e
            | Inr None \<Rightarrow> raise TypeError
            | Inr (Some name) \<Rightarrow> write_out (stars @ name) None)
      else (case v of
              str name \<Rightarrow> write_out (stars @ name) None
            | _ \<Rightarrow> raise TypeError))"

text \<open>
  The statements whose method calls \<^verbatim>\<open>self.newline(node)\<close> before anything else: every
  statement method does, but \<^verbatim>\<open>visit_Expr\<close> for a string (it writes the docstring with no
  call of \<^verbatim>\<open>newline\<close>) and the definitions with decorators (the first call is
  \<^verbatim>\<open>newline(decorator)\<close>). A statement with no method of its own has no such call.
\<close>

definition newline_first :: "dialect \<Rightarrow> node \<Rightarrow> bool" where
  "newline_first d node =
     (case node of
        FunctionDef name args bd decorator_list returns l \<Rightarrow> decorator_list = []
      | AsyncFunctionDef name args bd decorator_list returns l \<Rightarrow>
          issubclass d Python35 \<and> decorator_list = []
      | ClassDef name bases keywords bd decorator_list l \<Rightarrow> decorator_list = []
      | Return v l \<Rightarrow> True
      | Delete targets l \<Rightarrow> True
      | Assign targets v l \<Rightarrow> True
      | AugAssign target op v l \<Rightarrow> True
      | Print dest vs nl l \<Rightarrow> True
      | For target iter bd orelse l \<Rightarrow> True
      | AsyncFor target iter bd orelse l \<Rightarrow> issubclass d Python35
      | While test bd orelse l \<Rightarrow> True
      | If_stmt test bd orelse l \<Rightarrow> True
      | With context_expr optional_vars bd l \<Rightarrow> True
      | WithItems items bd l \<Rightarrow> True
      | Raise exc cause type inst tback l \<Rightarrow> True
      | TryExcept bd handlers orelse l \<Rightarrow> True
      | TryFinally bd finalbody l \<Rightarrow> True
      | Try bd handlers orelse finalbody l \<Rightarrow> issubclass d Python33
      | Assert test msg l \<Rightarrow> True
      | Import names l \<Rightarrow> True
      | ImportFrom module names level l \<Rightarrow> True
      | Global names l \<Rightarrow> True
      | Nonlocal names l \<Rightarrow> True
      | Expr v l \<Rightarrow> \<not> is_Str v
      | Pass l \<Rightarrow> True
      | Break l \<Rightarrow> True
      | Continue l \<Rightarrow> True
      | _ \<Rightarrow> False)"

text \<open>
  The indentation \<^verbatim>\<open>write_newline\<close> puts at the beginning of a line:
  \<^verbatim>\<open>self.indent_with * self.indentation\<close>.
\<close>

definition indent_str :: "visitor \<Rightarrow> string" where
  "indent_str s = concat (replicate (indentation s) (indent_with s))"

section \<open>Properties\<close>


subsection \<open>Sequences of renderers\<close>


lemma run_append: "run (xs @ ys) s = (case run xs s of Inl e \<Rightarrow> Inl e | Inr s' \<Rightarrow> run ys s')"
  by (induction xs arbitrary: s) (auto split: sum.splits)

lemma run_single: "run [g] = g"
  by (rule ext) (simp split: sum.splits)

lemma run_Inr: "run (Inr # gs) = run gs"
  by (rule ext) simp

lemma run_run: "run (run gs # hs) = run (gs @ hs)"
  by (rule ext) (simp add: run_append)

lemma run_map_lift:
  "run (map lift gs) (flag, s) = (case run gs s of Inl e \<Rightarrow> Inl e | Inr s' \<Rightarrow> Inr (flag, s'))"
proof (induction gs arbitrary: s)
  case Nil
  show ?case by simp
next
  case (Cons g gs)
  show ?case
  proof (cases "g s")
    case (Inl e)
    then show ?thesis by (simp add: lift_def)
  next
    case (Inr s1)
    then show ?thesis using Cons.IH [of s1] by (simp add: lift_def)
  qed
qed

lemma lift_run: "lift (run gs) = run (map lift gs)"
proof (rule ext)
  fix p :: "bool \<times> visitor"
  show "lift (run gs) p = run (map lift gs) p"
    by (cases p) (simp add: run_map_lift, simp add: lift_def)
qed

lemma lift_Inr: "lift Inr = Inr"
  by (rule ext) (simp add: lift_def split: prod.splits)

text \<open>
  The local \<^verbatim>\<open>write_comma\<close>: a loop whose body calls it before it renders an item writes
  the items separated by commas.
\<close>

lemma comma_item_True:
  "run [write_comma, lift g] (True, s) =
     (case run [write_out '', '' None, g] s of Inl e \<Rightarrow> Inl e | Inr s' \<Rightarrow> Inr (True, s'))"
  by (simp add: write_comma_def lift_def split: sum.splits)

lemma comma_item_False:
  "run [write_comma, lift g] (False, s) =
     (case g s of Inl e \<Rightarrow> Inl e | Inr s' \<Rightarrow> Inr (True, s'))"
  by (simp add: write_comma_def lift_def split: sum.splits)

lemma run_map_flag:
  assumes "\<And>x s. f x (a, s) = (case g x s of Inl e \<Rightarrow> Inl e | Inr s' \<Rightarrow> Inr (a, s'))"
  shows "run (map f xs) (a, s) = (case run (map g xs) s of Inl e \<Rightarrow> Inl e | Inr s' \<Rightarrow> Inr (a, s'))"
proof (induction xs arbitrary: s)
  case Nil
  show ?case by simp
next
  case (Cons x xs)
  show ?case
  proof (cases "g x s")
    case (Inl e)
    then show ?thesis by (simp add: assms)
  next
    case (Inr s1)
    then show ?thesis using Cons.IH [of s1] by (simp add: assms)
  qed
qed

lemma comma_items_True:
  "run (map (\<lambda>g. run [write_comma, lift g]) gs) (True, s) =
     (case run (map (\<lambda>h. run [write_out '', '' None, h]) gs) s of
        Inl e \<Rightarrow> Inl e | Inr s' \<Rightarrow> Inr (True, s'))"
  by (rule run_map_flag) (rule comma_item_True)

lemma comma_items_False:
  "run (map (\<lambda>g. run [write_comma, lift g]) gs) (False, s) =
     (case gs of [] \<Rightarrow> Inr (False, s)
      | _ \<Rightarrow> (case comma_separated gs s of Inl e \<Rightarrow> Inl e | Inr s' \<Rightarrow> Inr (True, s')))"
proof (cases gs)
  case Nil
  then show ?thesis by simp
next
  case (Cons g gs')
  have step: "run (map (\<lambda>g. run [write_comma, lift g]) (g # gs')) (False, s) =
      (case run [write_comma, lift g] (False, s) of Inl e \<Rightarrow> Inl e
       | Inr p \<Rightarrow> run (map (\<lambda>g. run [write_comma, lift g]) gs') p)"
    by simp
  show ?thesis
  proof (cases "g s")
    case (Inl e)
    then show ?thesis unfolding Cons step comma_item_False by simp
  next
    case (Inr s1)
    then show ?thesis unfolding Cons step comma_item_False
      using comma_items_True [of gs' s1] by simp
  qed
qed

lemma scoped_comma_items:
  "scoped (run (map (\<lambda>g. run [write_comma, lift g]) gs)) = comma_separated gs"
proof (rule ext)
  fix s
  show "scoped (run (map (\<lambda>g. run [write_comma, lift g]) gs)) s = comma_separated gs s"
    unfolding scoped_def comma_items_False
    by (cases gs) (auto simp del: comma_separated.simps(2) split: sum.splits)
qed


lemma run_flat: "run (xs @ run ys # zs) = run (xs @ ys @ zs)"
  by (rule ext) (simp add: run_append split: sum.splits)

lemma run_flat2: "run [a, run bs] = run (a # bs)"
  using run_flat [of "[a]" bs "[]"] by simp

lemma run_flat_last: "run (xs @ [run ys]) = run (xs @ ys)"
  using run_flat [of xs ys "[]"] by simp

lemma run_map_filter:
  assumes "\<And>x. \<not> P x \<Longrightarrow> f x = Inr"
  shows "run (map f xs) = run (map f (filter P xs))"
proof (rule ext)
  fix s
  show "run (map f xs) s = run (map f (filter P xs)) s"
    by (induction xs arbitrary: s) (auto simp: assms split: sum.splits)
qed

lemma map_filter_eq:
  "(\<And>x. P x \<Longrightarrow> f x = g x) \<Longrightarrow> map f (filter P xs) = map g (filter P xs)"
  by (induction xs) auto

lemma truthy_arg_keyword: "is_keyword k \<Longrightarrow> truthy_arg k = Inr (named k)"
  by (cases k) (simp_all add: is_keyword_def named_def truthy_arg_def getattr_arg_def split: option.splits)

lemma loop_args35:
  "for_each (map (\<lambda>x. (x, visit d x)) args)
       (\<lambda>(x, a). if is_Starred x then Inr else run [write_comma, lift a])
   = run (map (\<lambda>g. run [write_comma, lift g])
            (map (visit d) (filter (\<lambda>a. \<not> is_Starred a) args)))"
proof -
  let ?f = "\<lambda>x. if is_Starred x then Inr else run [write_comma, lift (visit d x)]"
  let ?g = "\<lambda>x. run [write_comma, lift (visit d x)]"
  have 1: "for_each (map (\<lambda>x. (x, visit d x)) args)
       (\<lambda>(x, a). if is_Starred x then Inr else run [write_comma, lift a]) = run (map ?f args)"
    unfolding for_each_def by (simp add: comp_def)
  have 2: "run (map ?f args) = run (map ?f (filter (\<lambda>a. \<not> is_Starred a) args))"
    by (rule run_map_filter) simp
  have 3: "map ?f (filter (\<lambda>a. \<not> is_Starred a) args) = map ?g (filter (\<lambda>a. \<not> is_Starred a) args)"
    by (rule map_filter_eq) simp
  have 4: "map ?g (filter (\<lambda>a. \<not> is_Starred a) args)
      = map (\<lambda>g. run [write_comma, lift g]) (map (visit d) (filter (\<lambda>a. \<not> is_Starred a) args))"
    unfolding map_map comp_def ..
  show ?thesis unfolding 1 2 3 4 ..
qed


lemma loop_keywords35:
  assumes "list_all is_keyword keywords"
  shows "for_each (map (\<lambda>x. (x, visit d x)) keywords)
       (\<lambda>(x, k). case truthy_arg x of Inl e \<Rightarrow> raise e
                | Inr True \<Rightarrow> run [write_comma, lift k] | Inr False \<Rightarrow> Inr)
   = run (map (\<lambda>g. run [write_comma, lift g]) (map (visit d) (filter named keywords)))"
proof -
  let ?h = "\<lambda>x. case truthy_arg x of Inl e \<Rightarrow> raise e
                | Inr True \<Rightarrow> run [write_comma, lift (visit d x)] | Inr False \<Rightarrow> Inr"
  let ?f = "\<lambda>x. if named x then run [write_comma, lift (visit d x)] else Inr"
  let ?g = "\<lambda>x. run [write_comma, lift (visit d x)]"
  have kw: "truthy_arg k = Inr (named k)" if "k \<in> set keywords" for k
    using assms that by (simp add: list_all_iff truthy_arg_keyword)
  have 0: "for_each (map (\<lambda>x. (x, visit d x)) keywords)
       (\<lambda>(x, k). case truthy_arg x of Inl e \<Rightarrow> raise e
                | Inr True \<Rightarrow> run [write_comma, lift k] | Inr False \<Rightarrow> Inr) = run (map ?h keywords)"
    unfolding for_each_def by (simp add: comp_def)
  have 1: "map ?h keywords = map ?f keywords"
    by (rule map_cong) (simp_all add: kw)
  have 2: "run (map ?f keywords) = run (map ?f (filter named keywords))"
    by (rule run_map_filter) simp
  have 3: "map ?f (filter named keywords) = map ?g (filter named keywords)"
    by (rule map_filter_eq) simp
  have 4: "map ?g (filter named keywords)
      = map (\<lambda>g. run [write_comma, lift g]) (map (visit d) (filter named keywords))"
    unfolding map_map comp_def ..
  show ?thesis unfolding 0 1 2 3 4 ..
qed

lemma loop_starargs35:
  "for_each (filter (\<lambda>(x, a). is_Starred x) (map (\<lambda>x. (x, visit d x)) args))
       (\<lambda>(x, stararg). run [write_comma, lift stararg])
   = run (map (\<lambda>g. run [write_comma, lift g]) (map (visit d) (filter is_Starred args)))"
  unfolding for_each_def by (simp add: filter_map comp_def)

lemma loop_kwargs35:
  assumes "list_all is_keyword keywords"
  shows "for_each (filter (\<lambda>(x, k). truthy_arg x = Inr False) (map (\<lambda>x. (x, visit d x)) keywords))
       (\<lambda>(x, kwarg). run [write_comma, lift kwarg])
   = run (map (\<lambda>g. run [write_comma, lift g])
            (map (visit d) (filter (\<lambda>k. \<not> named k) keywords)))"
proof -
  have kw: "truthy_arg k = Inr (named k)" if "k \<in> set keywords" for k
    using assms that by (simp add: list_all_iff truthy_arg_keyword)
  have "filter (\<lambda>k. truthy_arg k = Inr False) keywords = filter (\<lambda>k. \<not> named k) keywords"
    by (rule filter_cong) (simp_all add: kw)
  then show ?thesis
    unfolding for_each_def by (simp add: filter_map comp_def)
qed

lemma run_four: "run [run a, run b, run c, run e] = run (a @ b @ c @ e)"
  by (rule ext) (simp add: run_append split: sum.splits)

lemma call_signature35_order:
  assumes "list_all is_keyword keywords"
  shows "call_signature35 (map (\<lambda>x. (x, visit d x)) args) (map (\<lambda>x. (x, visit d x)) keywords) =
     comma_separated
       (map (visit d) (filter (\<lambda>a. \<not> is_Starred a) args)
        @ map (visit d) (filter named keywords)
        @ map (visit d) (filter is_Starred args)
        @ map (visit d) (filter (\<lambda>k. \<not> named k) keywords))"
  unfolding call_signature35_def Let_def loop_args35 loop_keywords35 [OF assms] loop_starargs35
    loop_kwargs35 [OF assms] run_four map_append [symmetric] scoped_comma_items ..


lemma comma_item_pair: "run [write_comma, lift a, lift b] = run [write_comma, lift (run [a, b])]"
proof -
  have "lift (run [a, b]) = run [lift a, lift b]"
    by (simp add: lift_run)
  then show ?thesis
    using run_flat_last [of "[write_comma]" "[lift a, lift b]"] by simp
qed

lemma call_signature_order:
  "call_signature as ks sa ka =
     comma_separated
       (as @ ks
        @ map (\<lambda>x. run [write_out ''*'' None, x]) (opt sa)
        @ map (\<lambda>x. run [write_out ''**'' None, x]) (opt ka))"
proof -
  let ?item = "\<lambda>g. run [write_comma, lift g]"
  have 1: "(case sa of Some x \<Rightarrow> run [write_comma, lift (write_out ''*'' None), lift x] | None \<Rightarrow> Inr)
      = run (map ?item (map (\<lambda>x. run [write_out ''*'' None, x]) (opt sa)))"
    by (cases sa) (simp_all add: opt_def comma_item_pair run_single del: run.simps, rule ext, simp)
  have 2: "(case ka of Some x \<Rightarrow> run [write_comma, lift (write_out ''**'' None), lift x] | None \<Rightarrow> Inr)
      = run (map ?item (map (\<lambda>x. run [write_out ''**'' None, x]) (opt ka)))"
    by (cases ka) (simp_all add: opt_def comma_item_pair run_single del: run.simps, rule ext, simp)
  show ?thesis
    unfolding call_signature_def for_each_def 1 2 run_four map_append [symmetric] scoped_comma_items ..
qed

subsection \<open>C3: the order of the arguments of a call\<close>

text \<open>
  Claim C3. From \<^verbatim>\<open>SourceGeneratorNodeVisitorPython35\<close> on, a call (whose keywords are
  \<open>keyword\<close> nodes) writes, separated by commas: the positional arguments that are not
  starred, the named keywords, the starred positional arguments, the keywords without a
  name. Every earlier class writes, separated by commas: the positional arguments, all
  the keywords, \<^verbatim>\<open>*\<close> and \<^verbatim>\<open>starargs\<close>, \<^verbatim>\<open>**\<close> and \<^verbatim>\<open>kwargs\<close>.
\<close>

theorem call_argument_order:
  "(issubclass d Python35 \<longrightarrow> list_all is_keyword keywords \<longrightarrow>
      visit d (Call func args keywords starargs kwargs l) =
        run [visit d func,
             write_out ''('' None,
             comma_separated
               (map (visit d) (filter (\<lambda>a. \<not> is_Starred a) args)
                @ map (visit d) (filter named keywords)
                @ map (visit d) (filter is_Starred args)
                @ map (visit d) (filter (\<lambda>k. \<not> named k) keywords)),
             write_out '')'' None])
   \<and> (\<not> issubclass d Python35 \<longrightarrow>
      visit d (Call func args keywords starargs kwargs l) =
        run [visit d func,
             write_out ''('' None,
             comma_separated
               (map (visit d) args
                @ map (visit d) keywords
                @ map (\<lambda>x. run [write_out ''*'' None, visit d x]) (opt starargs)
                @ map (\<lambda>x. run [write_out ''**'' None, visit d x]) (opt kwargs)),
             write_out '')'' None])"
proof (intro conjI impI)
  assume "issubclass d Python35" and "list_all is_keyword keywords"
  then show "visit d (Call func args keywords starargs kwargs l) =
        run [visit d func, write_out ''('' None,
             comma_separated
               (map (visit d) (filter (\<lambda>a. \<not> is_Starred a) args)
                @ map (visit d) (filter named keywords)
                @ map (visit d) (filter is_Starred args)
                @ map (visit d) (filter (\<lambda>k. \<not> named k) keywords)),
             write_out '')'' None]"
    by (simp only: visit.simps visit_Call_def if_True call_signature35_order)
next
  assume "\<not> issubclass d Python35"
  moreover have "map (\<lambda>x. run [write_out ''*'' None, x]) (opt (map_option (visit d) starargs))
      = map (\<lambda>x. run [write_out ''*'' None, visit d x]) (opt starargs)"
    by (cases starargs) (simp_all add: opt_def)
  moreover have "map (\<lambda>x. run [write_out ''**'' None, x]) (opt (map_option (visit d) kwargs))
      = map (\<lambda>x. run [write_out ''**'' None, visit d x]) (opt kwargs)"
    by (cases kwargs) (simp_all add: opt_def)
  ultimately show "visit d (Call func args keywords starargs kwargs l) =
        run [visit d func, write_out ''('' None,
             comma_separated
               (map (visit d) args
                @ map (visit d) keywords
                @ map (\<lambda>x. run [write_out ''*'' None, visit d x]) (opt starargs)
                @ map (\<lambda>x. run [write_out ''**'' None, visit d x]) (opt kwargs)),
             write_out '')'' None]"
    by (simp only: visit.simps visit_Call_def if_False call_signature_order)
qed

text \<open>The definitions that evaluate the output buffer on a concrete visitor.\<close>

lemmas prim_defs = write_out_def correct_line_number_def add_missing_lines_def write_newline_def
  newline_def lines_def init_def if_do_def for_each_def body_def NL_def

theorem call_argument_order_witness:
  "issubclass Python35 Python35
   \<and> list_all is_keyword [keyword None (Name ''k'' None), keyword (Some ''x'') (Name ''y'' None)]
   \<and> to_source Python35
        (Call (Name ''f'' None) [Starred (Name ''a'' None) None, Name ''b'' None]
           [keyword None (Name ''k'' None), keyword (Some ''x'') (Name ''y'' None)] None None None)
        ''    '' = Inr ''f(b, x=y, *a, **k)''
   \<and> \<not> issubclass Python27 Python35
   \<and> to_source Python27
        (Call (Name ''f'' None) [Name ''b'' None] [keyword (Some ''x'') (Name ''y'' None)]
           (Some (Name ''a'' None)) (Some (Name ''k'' None)) None)
        ''    '' = Inr ''f(b, x=y, *a, **k)''"
proof -
  have a: "issubclass Python35 Python35" and b: "\<not> issubclass Python27 Python35"
    by (simp_all add: issubclass_def)
  have k: "list_all is_keyword [keyword None (Name ''k'' None), keyword (Some ''x'') (Name ''y'' None)]"
    by (simp add: is_keyword_def)
  note new = call_argument_order [of Python35 "[keyword None (Name ''k'' None), keyword (Some ''x'') (Name ''y'' None)]"
      "Name ''f'' None" "[Starred (Name ''a'' None) None, Name ''b'' None]" None None None]
  note old = call_argument_order [of Python27 "[keyword (Some ''x'') (Name ''y'' None)]"
      "Name ''f'' None" "[Name ''b'' None]" "Some (Name ''a'' None)" "Some (Name ''k'' None)" None]
  have 1: "to_source Python35
        (Call (Name ''f'' None) [Starred (Name ''a'' None) None, Name ''b'' None]
           [keyword None (Name ''k'' None), keyword (Some ''x'') (Name ''y'' None)] None None None)
        ''    '' = Inr ''f(b, x=y, *a, **k)''"
    using new a k unfolding to_source_def
    by (simp add: is_Starred_def named_def visit_Name_def visit_Starred_def visit_keyword_def prim_defs)
  have 2: "to_source Python27
        (Call (Name ''f'' None) [Name ''b'' None] [keyword (Some ''x'') (Name ''y'' None)]
           (Some (Name ''a'' None)) (Some (Name ''k'' None)) None)
        ''    '' = Inr ''f(b, x=y, *a, **k)''"
    using old b unfolding to_source_def
    by (simp add: opt_def visit_Name_def visit_keyword_def prim_defs)
  from a b k 1 2 show ?thesis by blast
qed

subsection \<open>C9 and C10: tuples\<close>

text \<open>
  The loop \<^verbatim>\<open>for idx, item in enumerate(xs): if idx: self.write(', '); self.visit(item)\<close> of
  the sequence methods writes the items separated by commas.
\<close>

lemma enumerate_loop_from:
  "0 < n \<Longrightarrow>
   run (map (\<lambda>(idx, item). run [if_do (idx \<noteq> 0) (write_out sep None), item]) (enumerate n gs)) s
     = run (map (\<lambda>h. run [write_out sep None, h]) gs) s"
proof (induction gs arbitrary: n s)
  case Nil
  show ?case by simp
next
  case (Cons g gs)
  have step: "run [if_do (n \<noteq> 0) (write_out sep None), g] s = run [write_out sep None, g] s"
    using Cons.prems by (simp add: if_do_def)
  show ?case
  proof (cases "run [write_out sep None, g] s")
    case (Inl e)
    with step show ?thesis by simp
  next
    case (Inr s1)
    have "0 < Suc n" by simp
    from Cons.IH [OF this, of s1] step Inr show ?thesis by simp
  qed
qed

lemma enumerate_loop:
  "for_each (enumerate 0 gs) (\<lambda>(idx, item). run [if_do (idx \<noteq> 0) (write_out '', '' None), item])
     = comma_separated gs"
proof (rule ext)
  fix s
  show "for_each (enumerate 0 gs)
          (\<lambda>(idx, item). run [if_do (idx \<noteq> 0) (write_out '', '' None), item]) s
        = comma_separated gs s"
  proof (cases gs)
    case Nil
    then show ?thesis by (simp add: for_each_def)
  next
    case (Cons g gs')
    show ?thesis
    proof (cases "g s")
      case (Inl e)
      then show ?thesis unfolding Cons by (simp add: for_each_def if_do_def)
    next
      case (Inr s1)
      have "0 < Suc 0" by simp
      from enumerate_loop_from [OF this, of "'', ''" gs' s1] Inr
      show ?thesis unfolding Cons by (simp add: for_each_def if_do_def)
    qed
  qed
qed

text \<open>
  Claim C9. A tuple of one element is written as \<^verbatim>\<open>(\<close>, the element, \<^verbatim>\<open>,)\<close>; a tuple of two
  or more elements as \<^verbatim>\<open>(\<close>, the elements separated by commas, \<^verbatim>\<open>)\<close>.
\<close>

theorem tuple_trailing_comma:
  "visit d (Tuple [x] l) = run [write_out ''('' None, visit d x, write_out '',)'' None]
   \<and> visit d (Tuple (x # y # zs) l) =
       run [write_out ''('' None, comma_separated (map (visit d) (x # y # zs)), write_out '')'' None]"
proof
  have "comma_separated [visit d x] = visit d x"
    by (simp add: run_single)
  then show "visit d (Tuple [x] l) = run [write_out ''('' None, visit d x, write_out '',)'' None]"
    by (simp only: visit.simps visit_Tuple_def enumerate_loop Let_def list.map) simp
next
  show "visit d (Tuple (x # y # zs) l) =
       run [write_out ''('' None, comma_separated (map (visit d) (x # y # zs)), write_out '')'' None]"
    by (simp only: visit.simps visit_Tuple_def enumerate_loop Let_def) simp
qed

theorem tuple_trailing_comma_witness:
  "to_source Python27 (Tuple [Name ''x'' None] None) ''    '' = Inr ''(x,)''
   \<and> to_source Python27 (Tuple [Name ''x'' None, Name ''y'' None, Name ''z'' None] None) ''    ''
       = Inr ''(x, y, z)''"
  using tuple_trailing_comma [of Python27 "Name ''x'' None" None]
    tuple_trailing_comma [of Python27 "Name ''x'' None" None "Name ''y'' None" "[Name ''z'' None]"]
  unfolding to_source_def
  by (simp add: visit_Name_def prim_defs)

text \<open>
  Claim C10. A tuple with no element is written as \<^verbatim>\<open>(\<close> and \<^verbatim>\<open>)\<close>: rendered on its own
  it gives the text \<^verbatim>\<open>()\<close>, and no error.
\<close>

theorem tuple_empty:
  "visit d (Tuple [] l) = run [write_out ''('' None, write_out '')'' None]
   \<and> to_source d (Tuple [] l) indent = Inr ''()''"
proof
  show eq: "visit d (Tuple [] l) = run [write_out ''('' None, write_out '')'' None]"
    by (simp only: visit.simps visit_Tuple_def enumerate_loop Let_def list.map comma_separated.simps)
       (rule ext, simp split: sum.splits)
  show "to_source d (Tuple [] l) indent = Inr ''()''"
    unfolding to_source_def eq by (simp add: prim_defs)
qed

theorem tuple_empty_witness:
  "to_source Python36 (Tuple [] (Some 7)) ''    '' = Inr ''()''"
  using tuple_empty [of Python36 "Some 7" "''    ''"] by simp

subsection \<open>C7: docstrings\<close>

text \<open>
  Claim C7. An expression statement whose value is a string literal is written by
  \<^verbatim>\<open>docstring\<close>, as one fragment: three double quotes, the string, three double quotes.
  This holds for every dialect and wherever the statement stands, so also for the first
  statement of a block; \<^verbatim>\<open>newline\<close> and \<^verbatim>\<open>generic_visit\<close>, the path of the other expression
  statements, are not called. Rendered on its own the statement gives the quoted text.
  An expression statement with any other value takes the generic path.
\<close>

theorem docstring_statement:
  "visit d (Expr (Str s ls) l) = docstring s
   \<and> docstring s = write_out (replicate 3 (CHR 0x22) @ s @ replicate 3 (CHR 0x22)) None
   \<and> body (map (visit d) (Expr (Str s ls) l # stmts)) = body (docstring s # map (visit d) stmts)
   \<and> to_source d (Expr (Str s ls) l) indent = Inr (replicate 3 (CHR 0x22) @ s @ replicate 3 (CHR 0x22))
   \<and> (\<not> is_Str v \<longrightarrow>
        visit d (Expr v l) = run [newline l, generic_visit (map (visit d) (iter_child_nodes (Expr v l)))])"
proof -
  have 3: "visit d (Expr v l) = run [newline l, generic_visit (map (visit d) (iter_child_nodes (Expr v l)))]"
    if "\<not> is_Str v"
    using that by (cases v) (simp_all add: visit_Expr_def is_Str_def)
  have 1: "visit d (Expr (Str s ls) l) = docstring s"
    by (simp add: visit_Expr_def)
  have 2: "to_source d (Expr (Str s ls) l) indent = Inr (replicate 3 (CHR 0x22) @ s @ replicate 3 (CHR 0x22))"
    unfolding to_source_def 1 by (simp add: docstring_def prim_defs)
  from 1 2 3 show ?thesis by (simp add: docstring_def)
qed

theorem docstring_statement_witness:
  "to_source Python27 (Expr (Str ''doc'' (Some 2)) (Some 2)) ''    ''
     = Inr (replicate 3 (CHR 0x22) @ ''doc'' @ replicate 3 (CHR 0x22))
   \<and> \<not> is_Str (Name ''x'' (Some 2))
   \<and> visit Python27 (Expr (Name ''x'' (Some 2)) (Some 2))
       = run [newline (Some 2), generic_visit [visit Python27 (Name ''x'' (Some 2))]]"
  using docstring_statement [of Python27 "''doc''" "Some 2" "Some 2" "[]" "''    ''" "Name ''x'' (Some 2)"]
  by (simp add: is_Str_def is_AST_def)

subsection \<open>C8: line numbers behind the output\<close>

lemma length_str_split: "length (str_split xs c) = Suc (count_list xs c)"
  by (induction xs) (auto split: list.splits)

lemma lines_count:
  "lines s = (if result s = [] then 0 else 1 + int (count_list (concat (result s)) (CHR 0x0A)))"
  by (simp add: lines_def length_str_split)

lemma count_list_append: "count_list (xs @ ys) c = count_list xs c + count_list ys c"
  by (induction xs) auto

lemma write_newline_Inr:
  "write_newline s =
     Inr (s\<lparr>result := (if result s = [] then [] else result s @ [NL])
                        @ [concat (replicate (indentation s) (indent_with s))],
            new_line := False\<rparr>)"
  by (simp add: write_newline_def Let_def)

lemma lines_write_newline_le:
  assumes "write_newline s = Inr s'"
  shows "lines s \<le> lines s'"
  using assms unfolding write_newline_Inr
  by (auto simp: lines_count count_list_append)

lemma write_newlines_total: "\<exists>s'. run (replicate k write_newline) s = Inr s'"
proof (induction k arbitrary: s)
  case 0
  show ?case by simp
next
  case (Suc k)
  have "\<exists>s1. write_newline s = Inr s1"
    by (simp add: write_newline_Inr)
  then obtain s1 where "write_newline s = Inr s1" ..
  with Suc [of s1] show ?case by simp
qed

lemma add_missing_lines_count:
  "add_missing_lines ln s = run (replicate (nat (ln - lines s)) write_newline) s"
  by (simp add: add_missing_lines_def Let_def)

lemma add_missing_lines_behind: "ln \<le> lines s \<Longrightarrow> add_missing_lines ln s = Inr s"
  by (simp add: add_missing_lines_count)

text \<open>
  Claim C8. \<^verbatim>\<open>add_missing_lines\<close> calls \<^verbatim>\<open>write_newline\<close> as many times as the line number
  of the node exceeds the number of lines of the output, and not at all when it does not
  exceed it. So for a node whose line number is at most the number of lines already
  produced the visitor is left as it was, and \<^verbatim>\<open>correct_line_number\<close> does no more than write
  the newline that was pending. Neither method fails, whatever the line number.
\<close>

theorem reconciliation_behind:
  "add_missing_lines ln s = run (replicate (nat (ln - lines s)) write_newline) s
   \<and> (\<exists>s'. add_missing_lines ln s = Inr s')
   \<and> (\<exists>s'. correct_line_number node s = Inr s')
   \<and> (ln \<le> lines s \<longrightarrow> add_missing_lines ln s = Inr s)
   \<and> (ln \<le> lines s \<longrightarrow>
        correct_line_number (Some ln) s = (if new_line s then write_newline s else Inr s))"
proof (intro conjI impI)
  show "add_missing_lines ln s = run (replicate (nat (ln - lines s)) write_newline) s"
    by (rule add_missing_lines_count)
  show total: "\<exists>s'. add_missing_lines ln s = Inr s'" for ln s
    unfolding add_missing_lines_count by (rule write_newlines_total)
  show "\<exists>s'. correct_line_number node s = Inr s'"
  proof -
    have "\<exists>s1. (if new_line s then write_newline s else Inr s) = Inr s1"
      by (simp add: write_newline_Inr)
    then obtain s1 where s1: "(if new_line s then write_newline s else Inr s) = Inr s1" ..
    show ?thesis
    proof (cases node)
      case None
      with s1 show ?thesis by (simp add: correct_line_number_def)
    next
      case (Some n)
      from total [of n s1] obtain s2 where "add_missing_lines n s1 = Inr s2" ..
      with s1 Some show ?thesis by (simp add: correct_line_number_def)
    qed
  qed
  assume behind: "ln \<le> lines s"
  then show "add_missing_lines ln s = Inr s"
    by (rule add_missing_lines_behind)
  show "correct_line_number (Some ln) s = (if new_line s then write_newline s else Inr s)"
  proof (cases "new_line s")
    case False
    with behind show ?thesis
      by (simp add: correct_line_number_def add_missing_lines_behind)
  next
    case True
    have "\<exists>s1. write_newline s = Inr s1"
      by (simp add: write_newline_Inr)
    then obtain s1 where s1: "write_newline s = Inr s1" ..
    from lines_write_newline_le [OF s1] behind have "ln \<le> lines s1" by simp
    then have "add_missing_lines ln s1 = Inr s1"
      by (rule add_missing_lines_behind)
    with s1 True show ?thesis
      by (simp add: correct_line_number_def)
  qed
qed

text \<open>
  The witness: three lines are written and the node is on line 2. The second example is
  the decorator that shares line 1 with the function it decorates.
\<close>

theorem reconciliation_behind_witness:
  "(2::int) \<le> lines \<lparr>result = [''a'', NL, ''b'', NL, ''c''], indent_with = ''    '',
                      indentation = 0, new_line = False\<rparr>
   \<and> add_missing_lines 2 \<lparr>result = [''a'', NL, ''b'', NL, ''c''], indent_with = ''    '',
                          indentation = 0, new_line = False\<rparr>
       = Inr \<lparr>result = [''a'', NL, ''b'', NL, ''c''], indent_with = ''    '',
              indentation = 0, new_line = False\<rparr>
   \<and> correct_line_number (Some 2) \<lparr>result = [''a'', NL, ''b'', NL, ''c''], indent_with = ''    '',
                          indentation = 0, new_line = False\<rparr>
       = Inr \<lparr>result = [''a'', NL, ''b'', NL, ''c''], indent_with = ''    '',
              indentation = 0, new_line = False\<rparr>"
proof -
  let ?s = "\<lparr>result = [''a'', NL, ''b'', NL, ''c''], indent_with = ''    '',
             indentation = 0, new_line = False\<rparr>"
  have l: "(2::int) \<le> lines ?s"
    by (simp add: lines_def NL_def)
  from reconciliation_behind [of 2 ?s None] l show ?thesis by simp
qed

lemma decorator_on_the_line_of_its_function:
  "to_source Python27
     (FunctionDef ''f'' (arguments [] None [] [] None []) [Pass (Some 2)]
        [Name ''dec'' (Some 1)] None (Some 1)) ''    ''
   = Inr (''@dec'' @ NL @ ''def f():'' @ NL @ ''    pass'')"
  by (simp add: to_source_def issubclass_def visit_FunctionDef_def function_definition_def
      decorators_def x_prefixes_def signature_def scoped_def signature_vararg_def
      signature_kwarg_def visit_Name_def visit_Pass_def prim_defs)

subsection \<open>C1: a node class without a method\<close>

text \<open>
  Claim C1 says that a node whose class has no method in the chosen visitor makes the
  render fail. It does not: \<^verbatim>\<open>NodeVisitor.visit\<close> falls back on \<^verbatim>\<open>generic_visit\<close>. A
  \<^verbatim>\<open>YieldFrom\<close> node under \<^verbatim>\<open>SourceGeneratorNodeVisitorPython32\<close> is rendered as its value
  alone.
\<close>

theorem missing_rule_counterexample:
  "\<not> has_rule Python32 (YieldFrom (Name ''x'' None) None)
   \<and> to_source Python32 (YieldFrom (Name ''x'' None) None) ''    '' = Inr ''x''"
  by (simp add: to_source_def issubclass_def is_AST_def generic_visit_def visit_Name_def prim_defs)

text \<open>
  C1 as amended. A node whose class has no method in the chosen visitor is rendered by
  \<^verbatim>\<open>generic_visit\<close>: its child nodes are rendered in the order of its fields, nothing is
  written for the node itself, and the missing method raises no error. \<^verbatim>\<open>YieldFrom\<close> has
  a method from \<^verbatim>\<open>SourceGeneratorNodeVisitorPython33\<close> on, where it is written as
  \<^verbatim>\<open>yield from\<close> and its value; under the earlier classes it is rendered as its value.
\<close>

theorem missing_rule_generic_visit:
  "(\<not> has_rule d node \<longrightarrow>
      visit d node = generic_visit (map (visit d) (iter_child_nodes node)))
   \<and> generic_visit (map (visit d) (iter_child_nodes node)) = run (map (visit d) (iter_child_nodes node))
   \<and> has_rule d (YieldFrom v l) = issubclass d Python33
   \<and> (issubclass d Python33 \<longrightarrow>
        visit d (YieldFrom v l) = run [write_out ''yield from '' None, visit d v])
   \<and> (\<not> issubclass d Python33 \<longrightarrow> is_AST v \<longrightarrow> visit d (YieldFrom v l) = visit d v)"
proof (intro conjI impI)
  assume "\<not> has_rule d node"
  then show "visit d node = generic_visit (map (visit d) (iter_child_nodes node))"
    by (cases node) (simp_all del: iter_child_nodes.simps)
next
  show "generic_visit (map (visit d) (iter_child_nodes node)) = run (map (visit d) (iter_child_nodes node))"
    by (simp add: generic_visit_def)
next
  show "has_rule d (YieldFrom v l) = issubclass d Python33"
    by simp
next
  assume "issubclass d Python33"
  then show "visit d (YieldFrom v l) = run [write_out ''yield from '' None, visit d v]"
    by (simp add: visit_YieldFrom_def)
next
  assume "\<not> issubclass d Python33" and "is_AST v"
  then show "visit d (YieldFrom v l) = visit d v"
    by (simp add: generic_visit_def run_single)
qed

theorem missing_rule_generic_visit_witness:
  "\<not> has_rule Python32 (YieldFrom (Name ''x'' None) None)
   \<and> visit Python32 (YieldFrom (Name ''x'' None) None) = visit Python32 (Name ''x'' None)
   \<and> issubclass Python33 Python33
   \<and> to_source Python33 (YieldFrom (Name ''x'' None) None) ''    '' = Inr ''yield from x''
   \<and> \<not> has_rule Python36 (Module [Pass (Some 1)])
   \<and> visit Python36 (Module [Pass (Some 1)]) = generic_visit [visit Python36 (Pass (Some 1))]"
proof -
  have a: "\<not> has_rule Python32 (YieldFrom (Name ''x'' None) None)"
    and b: "\<not> issubclass Python32 Python33" and c: "issubclass Python33 Python33"
    and e: "is_AST (Name ''x'' None)" and f: "\<not> has_rule Python36 (Module [Pass (Some 1)])"
    by (simp_all add: issubclass_def is_AST_def)
  note old = missing_rule_generic_visit [of Python32 "YieldFrom (Name ''x'' None) None" "Name ''x'' None" None]
  note new = missing_rule_generic_visit [of Python33 "YieldFrom (Name ''x'' None) None" "Name ''x'' None" None]
  note md = missing_rule_generic_visit [of Python36 "Module [Pass (Some 1)]" "Name ''x'' None" None]
  have 1: "visit Python32 (YieldFrom (Name ''x'' None) None) = visit Python32 (Name ''x'' None)"
    using old b e by blast
  have "visit Python33 (YieldFrom (Name ''x'' None) None)
      = run [write_out ''yield from '' None, visit Python33 (Name ''x'' None)]"
    using new c by blast
  then have 2: "to_source Python33 (YieldFrom (Name ''x'' None) None) ''    '' = Inr ''yield from x''"
    unfolding to_source_def by (simp add: visit_Name_def prim_defs)
  have 3: "visit Python36 (Module [Pass (Some 1)]) = generic_visit [visit Python36 (Pass (Some 1))]"
    using md f by (simp add: is_AST_def)
  from a c f 1 2 3 show ?thesis by blast
qed

subsection \<open>C6: keywords among the bases of a class\<close>

text \<open>
  Claim C6 says that the class with a keyword among its bases fails to render under a
  dialect before \<^verbatim>\<open>SourceGeneratorNodeVisitorPython30\<close>. It does not: \<^verbatim>\<open>visit_ClassDef\<close> of the
  base class never reads \<^verbatim>\<open>keywords\<close>, and the class is written with its positional base
  alone.
\<close>

theorem class_keywords_counterexample:
  "\<not> issubclass Python27 Python30
   \<and> to_source Python27
       (ClassDef ''C'' [Name ''Base1'' (Some 1)] (Some [keyword (Some ''meta'') (Name ''M'' (Some 1))])
          [Pass (Some 2)] [] (Some 1)) ''    ''
     = Inr (''class C(Base1):'' @ NL @ ''    pass'')"
  by (simp add: to_source_def issubclass_def visit_ClassDef_def decorators_def scoped_def
      paren_or_comma_def lift_def read_flag_def visit_Name_def visit_Pass_def prim_defs)

text \<open>
  C6 as amended. The class node \<^verbatim>\<open>C\<close> with the positional base \<^verbatim>\<open>Base1\<close> and the keyword
  \<^verbatim>\<open>meta=M\<close> is written as \<^verbatim>\<open>class C(Base1, meta=M):\<close> by
  \<^verbatim>\<open>SourceGeneratorNodeVisitorPython30\<close> and every later class, and as \<^verbatim>\<open>class C(Base1):\<close>,
  without error, by the earlier ones; the body follows in both. The first two parts hold
  for any body and any line numbers, the last two give the text for the body \<^verbatim>\<open>pass\<close>.
\<close>

theorem class_keywords:
  "(issubclass d Python30 \<longrightarrow>
      visit d (ClassDef ''C'' [Name ''Base1'' lb] (Some [keyword (Some ''meta'') (Name ''M'' lm)])
                 bd [] l)
      = run [newline l, write_out ''class C'' l, write_out ''('' None, write_out ''Base1'' lb,
             write_out '', '' None, write_out ''meta='' None, write_out ''M'' lm,
             write_out ''):'' None, body (map (visit d) bd)])
   \<and> (\<not> issubclass d Python30 \<longrightarrow>
      visit d (ClassDef ''C'' [Name ''Base1'' lb] (Some [keyword (Some ''meta'') (Name ''M'' lm)])
                 bd [] l)
      = run [newline l, write_out ''class C'' l, write_out ''('' None, write_out ''Base1'' lb,
             write_out ''):'' None, body (map (visit d) bd)])
   \<and> (issubclass d Python30 \<longrightarrow>
      to_source d
        (ClassDef ''C'' [Name ''Base1'' (Some 1)] (Some [keyword (Some ''meta'') (Name ''M'' (Some 1))])
           [Pass (Some 2)] [] (Some 1)) ''    ''
      = Inr (''class C(Base1, meta=M):'' @ NL @ ''    pass''))
   \<and> (\<not> issubclass d Python30 \<longrightarrow>
      to_source d
        (ClassDef ''C'' [Name ''Base1'' (Some 1)] (Some [keyword (Some ''meta'') (Name ''M'' (Some 1))])
           [Pass (Some 2)] [] (Some 1)) ''    ''
      = Inr (''class C(Base1):'' @ NL @ ''    pass''))"
proof -
  have new: "visit d (ClassDef ''C'' [Name ''Base1'' lb] (Some [keyword (Some ''meta'') (Name ''M'' lm)])
                 bd [] l)
      = run [newline l, write_out ''class C'' l, write_out ''('' None, write_out ''Base1'' lb,
             write_out '', '' None, write_out ''meta='' None, write_out ''M'' lm,
             write_out ''):'' None, body (map (visit d) bd)]"
    if "issubclass d Python30" for lb lm bd l
  proof (rule ext)
    fix s
    show "visit d (ClassDef ''C'' [Name ''Base1'' lb] (Some [keyword (Some ''meta'') (Name ''M'' lm)])
                 bd [] l) s
      = run [newline l, write_out ''class C'' l, write_out ''('' None, write_out ''Base1'' lb,
             write_out '', '' None, write_out ''meta='' None, write_out ''M'' lm,
             write_out ''):'' None, body (map (visit d) bd)] s"
      using that
      by (simp add: visit_ClassDef30_def decorators_def for_each_def scoped_def
          paren_or_comma_def lift_def read_flag_def visit_Name_def visit_keyword_def
          split: sum.splits)
  qed
  have old: "visit d (ClassDef ''C'' [Name ''Base1'' lb] (Some [keyword (Some ''meta'') (Name ''M'' lm)])
                 bd [] l)
      = run [newline l, write_out ''class C'' l, write_out ''('' None, write_out ''Base1'' lb,
             write_out ''):'' None, body (map (visit d) bd)]"
    if "\<not> issubclass d Python30" for lb lm bd l
  proof (rule ext)
    fix s
    show "visit d (ClassDef ''C'' [Name ''Base1'' lb] (Some [keyword (Some ''meta'') (Name ''M'' lm)])
                 bd [] l) s
      = run [newline l, write_out ''class C'' l, write_out ''('' None, write_out ''Base1'' lb,
             write_out ''):'' None, body (map (visit d) bd)] s"
      using that
      by (simp add: visit_ClassDef_def decorators_def for_each_def scoped_def
          paren_or_comma_def lift_def read_flag_def visit_Name_def
          split: sum.splits)
  qed
  have new_text: "to_source d
        (ClassDef ''C'' [Name ''Base1'' (Some 1)] (Some [keyword (Some ''meta'') (Name ''M'' (Some 1))])
           [Pass (Some 2)] [] (Some 1)) ''    ''
      = Inr (''class C(Base1, meta=M):'' @ NL @ ''    pass'')"
    if "issubclass d Python30"
    unfolding to_source_def new [OF that]
    by (simp add: visit_Pass_def prim_defs)
  have old_text: "to_source d
        (ClassDef ''C'' [Name ''Base1'' (Some 1)] (Some [keyword (Some ''meta'') (Name ''M'' (Some 1))])
           [Pass (Some 2)] [] (Some 1)) ''    ''
      = Inr (''class C(Base1):'' @ NL @ ''    pass'')"
    if "\<not> issubclass d Python30"
    unfolding to_source_def old [OF that]
    by (simp add: visit_Pass_def prim_defs)
  from new old new_text old_text show ?thesis by blast
qed

theorem class_keywords_witness:
  "issubclass Python30 Python30
   \<and> to_source Python30
        (ClassDef ''C'' [Name ''Base1'' (Some 1)] (Some [keyword (Some ''meta'') (Name ''M'' (Some 1))])
           [Pass (Some 2)] [] (Some 1)) ''    ''
      = Inr (''class C(Base1, meta=M):'' @ NL @ ''    pass'')
   \<and> \<not> issubclass Python26 Python30
   \<and> to_source Python26
        (ClassDef ''C'' [Name ''Base1'' (Some 1)] (Some [keyword (Some ''meta'') (Name ''M'' (Some 1))])
           [Pass (Some 2)] [] (Some 1)) ''    ''
      = Inr (''class C(Base1):'' @ NL @ ''    pass'')"
proof -
  have a: "issubclass Python30 Python30" and b: "\<not> issubclass Python26 Python30"
    by (simp_all add: issubclass_def)
  from class_keywords [of Python30] class_keywords [of Python26] a b show ?thesis
    by blast
qed

subsection \<open>C5: operators and the symbol tables\<close>

lemma subscript_Some: "table op = Some symbol \<Longrightarrow> subscript table op k = k symbol"
  by (simp add: subscript_def)

lemma subscript_None: "table op = None \<Longrightarrow> subscript table op k s = Inl KeyError"
  by (simp add: subscript_def raise_def)

lemma enumerate_loop_sep:
  "for_each (enumerate 0 gs) (\<lambda>(idx, item). run [if_do (idx \<noteq> 0) (write_out sep None), item])
     = separated sep gs"
proof (rule ext)
  fix s
  show "for_each (enumerate 0 gs)
          (\<lambda>(idx, item). run [if_do (idx \<noteq> 0) (write_out sep None), item]) s
        = separated sep gs s"
  proof (cases gs)
    case Nil
    then show ?thesis by (simp add: for_each_def)
  next
    case (Cons g gs')
    show ?thesis
    proof (cases "g s")
      case (Inl e)
      then show ?thesis unfolding Cons by (simp add: for_each_def if_do_def)
    next
      case (Inr s1)
      have "0 < Suc 0" by simp
      from enumerate_loop_from [OF this, of sep gs' s1] Inr
      show ?thesis unfolding Cons by (simp add: for_each_def if_do_def)
    qed
  qed
qed

text \<open>
  Claim C5 says that every operator construct whose operator is missing from its table
  fails to render. A boolean operation with one value writes no operator and makes no
  lookup: it renders, whatever its operator.
\<close>

theorem operator_lookup_counterexample:
  "BOOLOP_SYMBOLS Add = None
   \<and> to_source Python27 (BoolOp Add [Name ''x'' None] None) ''    '' = Inr ''(x)''"
  by (simp add: BOOLOP_SYMBOLS_def to_source_def visit_BoolOp_def visit_Name_def prim_defs)


lemma run_map_fails:
  assumes "x \<in> set xs" and "\<And>s. \<exists>e. f x s = Inl e"
  shows "\<exists>e. run (map f xs) s = Inl e"
  using assms(1)
proof (induction xs arbitrary: s)
  case Nil
  then show ?case by simp
next
  case (Cons y ys)
  show ?case
  proof (cases "f y s")
    case (Inl e)
    then show ?thesis by simp
  next
    case (Inr s1)
    show ?thesis
    proof (cases "x = y")
      case True
      with assms(2) [of s] Inr show ?thesis by simp
    next
      case False
      with Cons.prems have "x \<in> set ys" by simp
      from Cons.IH [OF this, of s1] Inr show ?thesis by simp
    qed
  qed
qed

lemma compare_loop_present:
  assumes "list_all (\<lambda>op. CMPOP_SYMBOLS op \<noteq> None) ops"
  shows "for_each (zip ops gs) (\<lambda>(op, right).
            run [subscript CMPOP_SYMBOLS op (\<lambda>symbol. write_out ('' '' @ symbol @ '' '') None), right])
         = run (concat (map (\<lambda>(op, right).
                  [write_out ('' '' @ the (CMPOP_SYMBOLS op) @ '' '') None, right]) (zip ops gs)))"
proof (rule ext)
  fix s
  let ?f = "\<lambda>(op, right).
      run [subscript CMPOP_SYMBOLS op (\<lambda>symbol. write_out ('' '' @ symbol @ '' '') None), right]"
  let ?g = "\<lambda>(op, right). [write_out ('' '' @ the (CMPOP_SYMBOLS op) @ '' '') None, right]"
  from assms have "run (map ?f (zip ops gs)) s = run (concat (map ?g (zip ops gs))) s"
  proof (induction ops arbitrary: gs s)
    case Nil
    show ?case by simp
  next
    case (Cons op ops)
    show ?case
    proof (cases gs)
      case Nil
      then show ?thesis by simp
    next
      case (Cons g gs')
      from Cons.prems obtain symbol where sym: "CMPOP_SYMBOLS op = Some symbol"
        by auto
      from Cons.prems have rest: "list_all (\<lambda>op. CMPOP_SYMBOLS op \<noteq> None) ops"
        by simp
      have item: "?f (op, g) = run (?g (op, g))"
        by (simp only: prod.case subscript_Some [where table = CMPOP_SYMBOLS, OF sym] sym option.sel)
      have l: "run (map ?f (zip (op # ops) (g # gs'))) s
          = (case run (?g (op, g)) s of Inl e \<Rightarrow> Inl e | Inr s' \<Rightarrow> run (map ?f (zip ops gs')) s')"
        by (simp only: zip_Cons_Cons list.map run.simps item)
      have r: "run (concat (map ?g (zip (op # ops) (g # gs')))) s
          = (case run (?g (op, g)) s of Inl e \<Rightarrow> Inl e
             | Inr s' \<Rightarrow> run (concat (map ?g (zip ops gs'))) s')"
        by (simp only: zip_Cons_Cons list.map concat.simps run_append)
      show ?thesis unfolding Cons l r
        by (cases "run (?g (op, g)) s") (simp_all only: sum.case Cons.IH [OF rest])
    qed
  qed
  then show "for_each (zip ops gs) ?f s = run (concat (map ?g (zip ops gs))) s"
    by (simp only: for_each_def)
qed

text \<open>
  C5 as amended. The token of a binary, boolean, comparison or unary operation is what
  its table holds for the operator, looked up when the token is to be written. The
  tables are plain dictionaries: nothing fails when they are built. When the operator is
  missing from the table, the lookup raises \<^verbatim>\<open>KeyError\<close>, the \<^verbatim>\<open>UnsupportedOperator\<close> of
  the specification:
  \<^item> for a unary operation always;
  \<^item> for a binary operation and for the first operator of a comparison once the left
    operand is rendered (an error of the operand comes first);
  \<^item> for a boolean operation with two values or more once its first value is rendered;
  \<^item> a comparison fails when any operator that is paired with a comparator is missing.
  A boolean operation with one value and a comparison without a comparator write no
  token, look nothing up and render whatever their operators are.
\<close>

theorem operator_lookup:
  "(BINOP_SYMBOLS op = Some symbol \<longrightarrow>
      visit d (BinOp left op right l)
      = run [visit d left, write_out ('' '' @ symbol @ '' '') None, visit d right])
   \<and> (BINOP_SYMBOLS op = None \<longrightarrow>
      visit d (BinOp left op right l) s
      = (case visit d left s of Inl e \<Rightarrow> Inl e | Inr s' \<Rightarrow> Inl KeyError))
   \<and> (UNARYOP_SYMBOLS op = Some symbol \<longrightarrow>
      visit d (UnaryOp op operand l)
      = run [write_out ''('' None, write_out symbol None,
             if_do (symbol = ''not'') (write_out '' '' None), visit d operand,
             write_out '')'' None])
   \<and> (UNARYOP_SYMBOLS op = None \<longrightarrow> visit d (UnaryOp op operand l) s = Inl KeyError)
   \<and> (BOOLOP_SYMBOLS op = Some symbol \<longrightarrow>
      visit d (BoolOp op vs l)
      = run [write_out ''('' None, separated ('' '' @ symbol @ '' '') (map (visit d) vs),
             write_out '')'' None])
   \<and> (BOOLOP_SYMBOLS op = None \<longrightarrow>
      visit d (BoolOp op (v1 # v2 # vs) l) s
      = (case run [write_out ''('' None, visit d v1] s of
           Inl e \<Rightarrow> Inl e | Inr s' \<Rightarrow> Inl KeyError))
   \<and> visit d (BoolOp op [v1] l) = run [write_out ''('' None, visit d v1, write_out '')'' None]
   \<and> (list_all (\<lambda>op. CMPOP_SYMBOLS op \<noteq> None) ops \<longrightarrow>
      visit d (Compare left ops comparators l)
      = run (visit d left # concat (map (\<lambda>(op, right).
               [write_out ('' '' @ the (CMPOP_SYMBOLS op) @ '' '') None, visit d right])
               (zip ops comparators))))
   \<and> (CMPOP_SYMBOLS op = None \<longrightarrow>
      visit d (Compare left (op # ops) (c # cs) l) s
      = (case visit d left s of Inl e \<Rightarrow> Inl e | Inr s' \<Rightarrow> Inl KeyError))
   \<and> ((\<exists>op' \<in> set (map fst (zip ops comparators)). CMPOP_SYMBOLS op' = None) \<longrightarrow>
      (\<exists>e. visit d (Compare left ops comparators l) s = Inl e))
   \<and> visit d (Compare left ops [] l) = visit d left"
proof (intro conjI impI)
  assume "BINOP_SYMBOLS op = Some symbol"
  then show "visit d (BinOp left op right l)
      = run [visit d left, write_out ('' '' @ symbol @ '' '') None, visit d right]"
    by (simp add: visit_BinOp_def subscript_Some)
next
  assume "BINOP_SYMBOLS op = None"
  then show "visit d (BinOp left op right l) s
      = (case visit d left s of Inl e \<Rightarrow> Inl e | Inr s' \<Rightarrow> Inl KeyError)"
    by (simp add: visit_BinOp_def subscript_None split: sum.splits)
next
  assume "UNARYOP_SYMBOLS op = Some symbol"
  then show "visit d (UnaryOp op operand l)
      = run [write_out ''('' None, write_out symbol None,
             if_do (symbol = ''not'') (write_out '' '' None), visit d operand,
             write_out '')'' None]"
    by (simp only: visit.simps visit_UnaryOp_def subscript_Some)
       (rule ext, simp add: run_append split: sum.splits)
next
  assume "UNARYOP_SYMBOLS op = None"
  then show "visit d (UnaryOp op operand l) s = Inl KeyError"
    by (simp add: visit_UnaryOp_def subscript_None write_out_def correct_line_number_def
        write_newline_Inr split: sum.splits)
next
  assume "BOOLOP_SYMBOLS op = Some symbol"
  then show "visit d (BoolOp op vs l)
      = run [write_out ''('' None, separated ('' '' @ symbol @ '' '') (map (visit d) vs),
             write_out '')'' None]"
    by (simp only: visit.simps visit_BoolOp_def subscript_Some enumerate_loop_sep)
next
  assume "BOOLOP_SYMBOLS op = None"
  then show "visit d (BoolOp op (v1 # v2 # vs) l) s
      = (case run [write_out ''('' None, visit d v1] s of
           Inl e \<Rightarrow> Inl e | Inr s' \<Rightarrow> Inl KeyError)"
    by (simp add: visit_BoolOp_def for_each_def if_do_def subscript_None split: sum.splits)
next
  show "visit d (BoolOp op [v1] l) = run [write_out ''('' None, visit d v1, write_out '')'' None]"
    by (rule ext) (simp add: visit_BoolOp_def for_each_def if_do_def split: sum.splits)
next
  assume "list_all (\<lambda>op. CMPOP_SYMBOLS op \<noteq> None) ops"
  from compare_loop_present [OF this, of "map (visit d) comparators"]
  have "visit d (Compare left ops comparators l)
      = run [visit d left, run (concat (map (\<lambda>(op, right).
               [write_out ('' '' @ the (CMPOP_SYMBOLS op) @ '' '') None, right])
               (zip ops (map (visit d) comparators))))]"
    by (simp only: visit.simps visit_Compare_def)
  also have "concat (map (\<lambda>(op, right).
               [write_out ('' '' @ the (CMPOP_SYMBOLS op) @ '' '') None, right])
               (zip ops (map (visit d) comparators)))
      = concat (map (\<lambda>(op, right).
               [write_out ('' '' @ the (CMPOP_SYMBOLS op) @ '' '') None, visit d right])
               (zip ops comparators))"
    by (simp add: zip_map2 comp_def case_prod_unfold)
  finally show "visit d (Compare left ops comparators l)
      = run (visit d left # concat (map (\<lambda>(op, right).
               [write_out ('' '' @ the (CMPOP_SYMBOLS op) @ '' '') None, visit d right])
               (zip ops comparators)))"
    by (simp only: run_flat2)
next
  assume "CMPOP_SYMBOLS op = None"
  then show "visit d (Compare left (op # ops) (c # cs) l) s
      = (case visit d left s of Inl e \<Rightarrow> Inl e | Inr s' \<Rightarrow> Inl KeyError)"
    by (simp add: visit_Compare_def for_each_def subscript_None split: sum.splits)
next
  assume "\<exists>op' \<in> set (map fst (zip ops comparators)). CMPOP_SYMBOLS op' = None"
  then obtain op' c' where mem: "(op', c') \<in> set (zip ops comparators)"
    and none: "CMPOP_SYMBOLS op' = None"
    by auto
  let ?f = "\<lambda>(op, right).
      run [subscript CMPOP_SYMBOLS op (\<lambda>symbol. write_out ('' '' @ symbol @ '' '') None), right]"
  from mem have mem': "(op', visit d c') \<in> set (zip ops (map (visit d) comparators))"
    by (auto simp: zip_map2)
  have fails: "\<exists>e. ?f (op', visit d c') s = Inl e" for s
    by (simp add: subscript_None [where table = CMPOP_SYMBOLS, OF none])
  show "\<exists>e. visit d (Compare left ops comparators l) s = Inl e"
  proof (cases "visit d left s")
    case (Inl e)
    then show ?thesis by (simp add: visit_Compare_def)
  next
    case (Inr s1)
    from run_map_fails [of "(op', visit d c')" "zip ops (map (visit d) comparators)" ?f, OF mem' fails, of s1]
    obtain e where "run (map ?f (zip ops (map (visit d) comparators))) s1 = Inl e" ..
    with Inr show ?thesis by (simp add: visit_Compare_def for_each_def)
  qed
next
  show "visit d (Compare left ops [] l) = visit d left"
    by (rule ext) (simp add: visit_Compare_def for_each_def split: sum.splits)
qed


text \<open>
  The witness: \<^verbatim>\<open>a @ b\<close> (\<^verbatim>\<open>MatMult\<close> is in no table), a unary and a boolean operation with a
  binary operator, a comparison with one, and the same constructs with operators of their
  tables.
\<close>

theorem operator_lookup_witness:
  "BINOP_SYMBOLS MatMult = None
   \<and> to_source Python35 (BinOp (Name ''a'' None) MatMult (Name ''b'' None) None) ''    ''
       = Inl KeyError
   \<and> BINOP_SYMBOLS Add = Some ''+''
   \<and> to_source Python35 (BinOp (Name ''a'' None) Add (Name ''b'' None) None) ''    ''
       = Inr ''a + b''
   \<and> UNARYOP_SYMBOLS Not_op = Some ''not''
   \<and> to_source Python35 (UnaryOp Not_op (Name ''a'' None) None) ''    '' = Inr ''(not a)''
   \<and> UNARYOP_SYMBOLS Add = None
   \<and> to_source Python35 (UnaryOp Add (Name ''a'' None) None) ''    '' = Inl KeyError
   \<and> BOOLOP_SYMBOLS Or = Some ''or''
   \<and> to_source Python35 (BoolOp Or [Name ''a'' None, Name ''b'' None, Name ''c'' None] None) ''    ''
       = Inr ''(a or b or c)''
   \<and> BOOLOP_SYMBOLS Add = None
   \<and> to_source Python35 (BoolOp Add [Name ''a'' None, Name ''b'' None] None) ''    ''
       = Inl KeyError
   \<and> list_all (\<lambda>op. CMPOP_SYMBOLS op \<noteq> None) [Lt, NotIn]
   \<and> to_source Python35
        (Compare (Name ''a'' None) [Lt, NotIn] [Name ''b'' None, Name ''c'' None] None) ''    ''
       = Inr ''a < b not in c''
   \<and> CMPOP_SYMBOLS Add = None
   \<and> to_source Python35 (Compare (Name ''a'' None) [Add] [Name ''b'' None] None) ''    ''
       = Inl KeyError
   \<and> (\<exists>e. to_source Python35
        (Compare (Name ''a'' None) [Lt, Add] [Name ''b'' None, Name ''c'' None] None) ''    ''
       = Inl e)"
proof -
  have t: "BINOP_SYMBOLS MatMult = None" "BINOP_SYMBOLS Add = Some ''+''"
    "UNARYOP_SYMBOLS Not_op = Some ''not''" "UNARYOP_SYMBOLS Add = None"
    "BOOLOP_SYMBOLS Or = Some ''or''" "BOOLOP_SYMBOLS Add = None"
    "list_all (\<lambda>op. CMPOP_SYMBOLS op \<noteq> None) [Lt, NotIn]" "CMPOP_SYMBOLS Add = None"
    "CMPOP_SYMBOLS Lt = Some ''<''" "CMPOP_SYMBOLS NotIn = Some ''not in''"
    by (simp_all add: BINOP_SYMBOLS_def UNARYOP_SYMBOLS_def BOOLOP_SYMBOLS_def CMPOP_SYMBOLS_def)
  let ?a = "Name ''a'' None" and ?b = "Name ''b'' None" and ?c = "Name ''c'' None"
  let ?s = "init ''    ''"
  have 1: "to_source Python35 (BinOp ?a MatMult ?b None) ''    '' = Inl KeyError"
    using operator_lookup [where op = MatMult and d = Python35 and left = ?a and right = ?b
        and l = None and s = ?s] t
    unfolding to_source_def by (simp add: visit_Name_def prim_defs)
  have 2: "to_source Python35 (BinOp ?a Add ?b None) ''    '' = Inr ''a + b''"
    using operator_lookup [where op = Add and symbol = "''+''" and d = Python35 and left = ?a
        and right = ?b and l = None] t
    unfolding to_source_def by (simp add: visit_Name_def prim_defs)
  have 3: "to_source Python35 (UnaryOp Not_op ?a None) ''    '' = Inr ''(not a)''"
    using operator_lookup [where op = Not_op and symbol = "''not''" and d = Python35
        and operand = ?a and l = None] t
    unfolding to_source_def by (simp add: visit_Name_def prim_defs)
  have 4: "to_source Python35 (UnaryOp Add ?a None) ''    '' = Inl KeyError"
    using operator_lookup [where op = Add and d = Python35 and operand = ?a and l = None
        and s = ?s] t
    unfolding to_source_def by simp
  have 5: "to_source Python35 (BoolOp Or [?a, ?b, ?c] None) ''    '' = Inr ''(a or b or c)''"
    using operator_lookup [where op = Or and symbol = "''or''" and d = Python35
        and vs = "[?a, ?b, ?c]" and l = None] t
    unfolding to_source_def by (simp add: visit_Name_def prim_defs)
  have 6: "to_source Python35 (BoolOp Add [?a, ?b] None) ''    '' = Inl KeyError"
    using operator_lookup [where op = Add and d = Python35 and ?v1.0 = ?a and ?v2.0 = ?b
        and vs = "[]" and l = None and s = ?s] t
    unfolding to_source_def by (simp add: visit_Name_def prim_defs)
  have 7: "to_source Python35 (Compare ?a [Lt, NotIn] [?b, ?c] None) ''    ''
      = Inr ''a < b not in c''"
    using operator_lookup [where d = Python35 and left = ?a and ops = "[Lt, NotIn]"
        and comparators = "[?b, ?c]" and l = None] t
    unfolding to_source_def by (simp add: visit_Name_def prim_defs)
  have 8: "to_source Python35 (Compare ?a [Add] [?b] None) ''    '' = Inl KeyError"
    using operator_lookup [where op = Add and d = Python35 and left = ?a and ops = "[]"
        and c = ?b and cs = "[]" and l = None and s = ?s] t
    unfolding to_source_def by (simp add: visit_Name_def prim_defs)
  have "\<exists>e. visit Python35 (Compare ?a [Lt, Add] [?b, ?c] None) ?s = Inl e"
    using operator_lookup [where d = Python35 and left = ?a and ops = "[Lt, Add]"
        and comparators = "[?b, ?c]" and l = None and s = ?s] t
    by simp
  then have 9: "\<exists>e. to_source Python35 (Compare ?a [Lt, Add] [?b, ?c] None) ''    '' = Inl e"
    unfolding to_source_def by auto
  from t 1 2 3 4 5 6 7 8 9 show ?thesis by blast
qed

subsection \<open>C4: signatures\<close>

lemma run_Nil: "run [] = Inr"
  by (rule ext) simp

lemma lift_raise: "lift (raise e) = raise e"
  by (rule ext) (simp add: lift_def raise_def split: prod.splits)

text \<open>
  A parameter is one item of the comma loop. The override of
  \<^verbatim>\<open>SourceGeneratorNodeVisitorPython30\<close> adds nothing for a parameter without annotation.
\<close>

lemma parameter_item:
  assumes "\<not> (issubclass d Python30 \<and> annotated a)"
  shows "(if issubclass d Python30
    then signature_arg30 (visit d a) (map_option (visit d) deflt)
           (case a of arg name (Some annotation) \<Rightarrow> Some (visit d annotation) | _ \<Rightarrow> None)
    else signature_arg (visit d a) (map_option (visit d) deflt))
   = run [write_comma, lift (parameter d a deflt)]"
proof -
  let ?dflt = "case map_option (visit d) deflt of
                 Some dflt \<Rightarrow> run [write_out ''='' None, dflt] | None \<Rightarrow> Inr"
  let ?dl = "case deflt of Some x \<Rightarrow> [write_out ''='' None, visit d x] | None \<Rightarrow> []"
  have dflt: "?dflt = run ?dl"
    by (cases deflt) (simp_all add: run_Nil del: run.simps)
  have base: "signature_arg (visit d a) (map_option (visit d) deflt)
      = run [write_comma, lift (run (visit d a # ?dl))]"
  proof -
    have "run [write_comma, lift (visit d a), lift (run ?dl)]
        = run [write_comma, lift (run [visit d a, run ?dl])]"
      by (rule comma_item_pair)
    then show ?thesis
      unfolding signature_arg_def dflt by (simp only: run_flat2)
  qed
  show ?thesis
  proof (cases "issubclass d Python30")
    case False
    with base show ?thesis
      by (simp add: parameter_def del: run.simps)
  next
    case True
    with assms have "\<not> annotated a" by simp
    then have none: "(case a of arg name (Some annotation) \<Rightarrow> Some (visit d annotation) | _ \<Rightarrow> None)
        = None"
      by (cases a) (simp_all add: annotated_def split: option.splits)
    have "signature_arg30 (visit d a) (map_option (visit d) deflt) None
        = signature_arg (visit d a) (map_option (visit d) deflt)"
      by (rule ext) (simp add: signature_arg30_def lift_def split: sum.splits prod.splits)
    with True base show ?thesis
      unfolding none by (simp add: parameter_def del: run.simps)
  qed
qed


lemma star_item:
  "(if issubclass d Python34 then signature_vararg34 v else signature_vararg v)
     = run (map (\<lambda>g. run [write_comma, lift g]) (map (star_parameter d ''*'') (opt v)))"
  "(if issubclass d Python34 then signature_kwarg34 v else signature_kwarg v)
     = run (map (\<lambda>g. run [write_comma, lift g]) (map (star_parameter d ''**'') (opt v)))"
proof -
  have new: "(case getattr_arg x of Inl e \<Rightarrow> raise e | Inr None \<Rightarrow> raise TypeError
              | Inr (Some name) \<Rightarrow> lift (write_out (stars @ name) None))
      = lift (case getattr_arg x of Inl e \<Rightarrow> raise e | Inr None \<Rightarrow> raise TypeError
              | Inr (Some name) \<Rightarrow> write_out (stars @ name) None)" for x stars
    by (simp add: lift_raise split: sum.splits option.splits)
  have old: "(case x of str name \<Rightarrow> lift (write_out (stars @ name) None) | _ \<Rightarrow> raise TypeError)
      = lift (case x of str name \<Rightarrow> write_out (stars @ name) None | _ \<Rightarrow> raise TypeError)"
    for x stars
    by (cases x) (simp_all add: lift_raise)
  show "(if issubclass d Python34 then signature_vararg34 v else signature_vararg v)
     = run (map (\<lambda>g. run [write_comma, lift g]) (map (star_parameter d ''*'') (opt v)))"
    by (cases v)
       (simp_all add: signature_vararg34_def signature_vararg_def star_parameter_def opt_def
          run_Nil run_single new old del: run.simps)
  show "(if issubclass d Python34 then signature_kwarg34 v else signature_kwarg v)
     = run (map (\<lambda>g. run [write_comma, lift g]) (map (star_parameter d ''**'') (opt v)))"
    by (cases v)
       (simp_all add: signature_kwarg34_def signature_kwarg_def star_parameter_def opt_def
          run_Nil run_single new old del: run.simps)
qed

lemma zip_padding:
  assumes "length defaults \<le> length args"
  shows "zip args (replicate (length args - length defaults) None @ map Some defaults)
     = map (\<lambda>a. (a, None)) (take (length args - length defaults) args)
       @ map (\<lambda>(a, x). (a, Some x)) (zip (drop (length args - length defaults) args) defaults)"
proof -
  let ?k = "length args - length defaults"
  have "zip args (replicate ?k None @ map Some defaults)
      = zip (take ?k args) (replicate ?k None) @ zip (drop ?k args) (map Some defaults)"
    by (simp add: zip_append2)
  moreover have "zip (take ?k args) (replicate ?k None) = map (\<lambda>a. (a, None)) (take ?k args)"
    by (simp add: zip_replicate2 min_def)
  moreover have "zip (drop ?k args) (map Some defaults)
      = map (\<lambda>(a, x). (a, Some x)) (zip (drop ?k args) defaults)"
    by (simp add: zip_map2)
  ultimately show ?thesis by simp
qed

lemma run_three: "run [run a, run b, run c] = run (a @ b @ c)"
  by (rule ext) (simp add: run_append split: sum.splits)

lemma signature_loop:
  assumes plain: "issubclass d Python30 \<longrightarrow> (\<forall>a\<in>set args. \<not> annotated a)"
  shows "for_each
     (zip (map (\<lambda>a deflt.
                  if issubclass d Python30
                  then signature_arg30 (visit d a) deflt
                         (case a of arg name (Some annotation) \<Rightarrow> Some (visit d annotation)
                          | _ \<Rightarrow> None)
                  else signature_arg (visit d a) deflt) args)
          (replicate (length args - length defaults) None @ map Some (map (visit d) defaults)))
     (\<lambda>(a, deflt). a deflt)
   = run (map (\<lambda>g. run [write_comma, lift g])
            (map (\<lambda>(a, dn). parameter d a dn)
               (zip args (replicate (length args - length defaults) None @ map Some defaults))))"
proof -
  let ?F = "\<lambda>a deflt.
                  if issubclass d Python30
                  then signature_arg30 (visit d a) deflt
                         (case a of arg name (Some annotation) \<Rightarrow> Some (visit d annotation)
                          | _ \<Rightarrow> None)
                  else signature_arg (visit d a) deflt"
  let ?pad = "replicate (length args - length defaults) None"
  let ?Z = "zip args (?pad @ map Some defaults)"
  have z: "zip (map ?F args) (?pad @ map Some (map (visit d) defaults))
      = map (\<lambda>(a, dn). (?F a, map_option (visit d) dn)) ?Z"
  proof -
    have "?pad @ map Some (map (visit d) defaults)
        = map (map_option (visit d)) (?pad @ map Some defaults)"
      by simp
    then show ?thesis
      by (simp only: zip_map_map)
  qed
  have "map (\<lambda>(a, deflt). a deflt) (map (\<lambda>(a, dn). (?F a, map_option (visit d) dn)) ?Z)
      = map (\<lambda>(a, dn). ?F a (map_option (visit d) dn)) ?Z"
    by (simp add: comp_def case_prod_unfold del: run.simps)
  also have "\<dots> = map (\<lambda>(a, dn). run [write_comma, lift (parameter d a dn)]) ?Z"
  proof (rule map_cong [OF refl])
    fix x assume x: "x \<in> set ?Z"
    obtain a dn where p: "x = (a, dn)" by (cases x)
    with x have "a \<in> set args" by (auto dest: set_zip_leftD)
    with plain have "\<not> (issubclass d Python30 \<and> annotated a)" by blast
    from parameter_item [OF this, of dn]
    show "(case x of (a, dn) \<Rightarrow> ?F a (map_option (visit d) dn))
        = (case x of (a, dn) \<Rightarrow> run [write_comma, lift (parameter d a dn)])"
      unfolding p by (simp del: run.simps)
  qed
  also have "\<dots> = map (\<lambda>g. run [write_comma, lift g]) (map (\<lambda>(a, dn). parameter d a dn) ?Z)"
    by (simp add: comp_def case_prod_unfold del: run.simps)
  finally show ?thesis
    unfolding for_each_def by (simp only: z)
qed

text \<open>
  The signatures that \<^verbatim>\<open>signature\<close> renders as they are to be rendered. With \<open>N\<close> positional
  parameters and \<open>D \<le> N\<close> defaults, none of the parameters carrying an annotation where the
  class is \<^verbatim>\<open>SourceGeneratorNodeVisitorPython30\<close> or a later one, \<^verbatim>\<open>signature\<close> writes,
  separated by commas and with no comma before the first thing written: the first \<open>N - D\<close>
  parameters without a default, the last \<open>D\<close> parameters each with \<^verbatim>\<open>=\<close> and its default (the
  defaults paired with them in order), then \<^verbatim>\<open>*\<close> and the name of the variadic parameter if
  there is one, then \<^verbatim>\<open>**\<close> and the name of the keyword one if there is one. With no
  positional, no variadic and no keyword parameter, \<^verbatim>\<open>signature\<close> leaves the visitor as it
  was.
\<close>

lemma signature_without_annotation:
  assumes plain: "issubclass d Python30 \<longrightarrow> (\<forall>a\<in>set args. \<not> annotated a)"
    and le: "length defaults \<le> length args"
  shows "self_signature d (arguments args vararg kwonlyargs kw_defaults kwarg defaults)
      = comma_separated
          (map (\<lambda>a. parameter d a None) (take (length args - length defaults) args)
           @ map (\<lambda>(a, x). parameter d a (Some x))
               (zip (drop (length args - length defaults) args) defaults)
           @ map (star_parameter d ''*'') (opt vararg)
           @ map (star_parameter d ''**'') (opt kwarg))"
proof -
  have sig: "self_signature d (arguments args vararg kwonlyargs kw_defaults kwarg defaults)
      = comma_separated
          (map (\<lambda>(a, dn). parameter d a dn)
             (zip args (replicate (length args - length defaults) None @ map Some defaults))
           @ map (star_parameter d ''*'') (opt vararg)
           @ map (star_parameter d ''**'') (opt kwarg))"
    by (simp only: self_signature.simps node.case signature_def Let_def length_map
        signature_loop [OF plain] star_item run_three map_append [symmetric] scoped_comma_items)
  have "map (\<lambda>(a, dn). parameter d a dn)
           (zip args (replicate (length args - length defaults) None @ map Some defaults))
      = map (\<lambda>a. parameter d a None) (take (length args - length defaults) args)
        @ map (\<lambda>(a, x). parameter d a (Some x))
            (zip (drop (length args - length defaults) args) defaults)"
    unfolding zip_padding [OF le] by (simp add: comp_def case_prod_unfold del: run.simps)
  then show ?thesis
    unfolding sig by (simp only: append_assoc)
qed

lemma signature_empty:
  "self_signature d (arguments [] None kwonlyargs kw_defaults None defaults) = Inr"
  by (rule ext)
     (simp add: signature_def Let_def for_each_def signature_vararg_def signature_vararg34_def
        signature_kwarg_def signature_kwarg34_def scoped_def)

lemma parameter_name:
  "parameter d (Name a l) None = write_out a l"
  "parameter d (Name a l) (Some x) = run [write_out a l, write_out ''='' None, visit d x]"
  "parameter d (arg a ann) None = write_out a None"
  "parameter d (arg a ann) (Some x) = run [write_out a None, write_out ''='' None, visit d x]"
  by (simp_all add: parameter_def visit_Name_def visit_arg_def run_single del: run.simps)

text \<open>
  Claim C4. The claim wants every parameter that has a default rendered as
  \<^verbatim>\<open>name=default\<close>. \<^verbatim>\<open>signature_arg\<close> of \<^verbatim>\<open>SourceGeneratorNodeVisitorPython30\<close> first calls
  the method of the base class, which writes the name, \<^verbatim>\<open>=\<close> and the default, and only
  then writes \<^verbatim>\<open>: \<close> and the annotation. So \<^verbatim>\<open>def f(a: int = 1)\<close> is rendered with the
  annotation behind the default, \<^verbatim>\<open>def f(a=1: int):\<close>, by that class and by every later one.
  The same parameter without annotation is rendered \<^verbatim>\<open>a=1\<close>, and the classes before it,
  which ignore annotations, render \<^verbatim>\<open>a=1\<close> for both.
\<close>

theorem signature_annotation_after_default:
  "to_source Python30
       (FunctionDef ''f''
          (arguments [arg ''a'' (Some (Name ''int'' None))] None [] [] None [Num 1 None])
          [Pass (Some 2)] [] None (Some 1)) ''    ''
     = Inr (''def f(a=1: int):'' @ NL @ ''    pass'')
   \<and> to_source Python36
       (FunctionDef ''f''
          (arguments [arg ''a'' (Some (Name ''int'' None))] None [] [] None [Num 1 None])
          [Pass (Some 2)] [] None (Some 1)) ''    ''
     = Inr (''def f(a=1: int):'' @ NL @ ''    pass'')
   \<and> to_source Python36
       (FunctionDef ''f'' (arguments [arg ''a'' None] None [] [] None [Num 1 None])
          [Pass (Some 2)] [] None (Some 1)) ''    ''
     = Inr (''def f(a=1):'' @ NL @ ''    pass'')
   \<and> to_source Python27
       (FunctionDef ''f''
          (arguments [arg ''a'' (Some (Name ''int'' None))] None [] [] None [Num 1 None])
          [Pass (Some 2)] [] None (Some 1)) ''    ''
     = Inr (''def f(a=1):'' @ NL @ ''    pass'')"
proof -
  have n1: "repr_int 1 = ''1''"
    by code_simp
  note defs = to_source_def issubclass_def visit_FunctionDef_def visit_FunctionDef30_def
    function_definition_def decorators_def x_prefixes_def signature_def signature_arg_def
    signature_arg30_def signature_vararg_def signature_vararg34_def signature_kwarg_def
    signature_kwarg34_def write_comma_def lift_def scoped_def visit_arg_def visit_Name_def
    visit_Num_def n1 visit_Pass_def prim_defs
  have 1: "to_source Python30
       (FunctionDef ''f''
          (arguments [arg ''a'' (Some (Name ''int'' None))] None [] [] None [Num 1 None])
          [Pass (Some 2)] [] None (Some 1)) ''    ''
     = Inr (''def f(a=1: int):'' @ NL @ ''    pass'')"
    by (simp add: defs)
  have 2: "to_source Python36
       (FunctionDef ''f''
          (arguments [arg ''a'' (Some (Name ''int'' None))] None [] [] None [Num 1 None])
          [Pass (Some 2)] [] None (Some 1)) ''    ''
     = Inr (''def f(a=1: int):'' @ NL @ ''    pass'')"
    by (simp add: defs)
  have 3: "to_source Python36
       (FunctionDef ''f'' (arguments [arg ''a'' None] None [] [] None [Num 1 None])
          [Pass (Some 2)] [] None (Some 1)) ''    ''
     = Inr (''def f(a=1):'' @ NL @ ''    pass'')"
    by (simp add: defs)
  have 4: "to_source Python27
       (FunctionDef ''f''
          (arguments [arg ''a'' (Some (Name ''int'' None))] None [] [] None [Num 1 None])
          [Pass (Some 2)] [] None (Some 1)) ''    ''
     = Inr (''def f(a=1):'' @ NL @ ''    pass'')"
    by (simp add: defs)
  from 1 2 3 4 show ?thesis by (intro conjI)
qed

subsection \<open>C2: blank lines between sibling statements\<close>

text \<open>
  Claim C2 says that two consecutive sibling statements with the line numbers \<open>L1 < L2\<close>
  are \<open>L2 - L1 - 1\<close> blank lines apart. They are not when the first one could not be put
  on its own line: in \<^verbatim>\<open>pass; pass\<close> followed by an empty line and \<^verbatim>\<open>pass\<close>, the second
  statement has line 1 and goes to line 2 of the output, the third has line 3 and goes
  to line 3, with no blank line between them, where the claim wants one.
\<close>

theorem sibling_blank_lines_counterexample:
  "lineno (Pass (Some 1)) = Some 1 \<and> lineno (Pass (Some 3)) = Some 3 \<and> (3::int) - 1 - 1 = 1
   \<and> to_source Python27 (Module [Pass (Some 1), Pass (Some 1), Pass (Some 3)]) ''    ''
       = Inr (''pass'' @ NL @ ''pass'' @ NL @ ''pass'')"
  by (simp add: to_source_def is_AST_def generic_visit_def visit_Pass_def prim_defs)

lemma ex_head: "\<exists>k. run (g # gs) = run [g, k]"
  by (rule exI [of _ "run gs"]) (simp only: run_flat2)

lemma decorators_Nil: "decorators [] = Inr"
  by (simp add: decorators_def for_each_def run_Nil)

lemma newline_first_visit:
  assumes "newline_first d st"
  shows "\<exists>k. visit d st = run [newline (lineno st), k]"
proof (cases st)
  case (Expr v l)
  with assms have "\<not> is_Str v" by (simp add: newline_first_def)
  then have "visit_Expr v (map (visit d) (iter_child_nodes (Expr v l))) l
      = run [newline l, generic_visit (map (visit d) (iter_child_nodes (Expr v l)))]"
    by (cases v) (simp_all add: visit_Expr_def is_Str_def del: run.simps iter_child_nodes.simps)
  with Expr show ?thesis by (auto simp del: run.simps iter_child_nodes.simps)
qed (use assms in \<open>simp_all add: newline_first_def ex_head decorators_Nil run_Inr
      visit_FunctionDef_def visit_FunctionDef30_def function_definition_def
      visit_AsyncFunctionDef_def visit_ClassDef_def visit_ClassDef30_def visit_Return_def
      visit_Delete_def visit_Assign_def visit_AugAssign_def visit_Print_def visit_For_def
      visit_AsyncFor_def for_loop_def visit_While_def visit_With_def visit_With33_def
      visit_Raise_def visit_TryExcept_def visit_TryFinally_def visit_Try_def visit_Assert_def
      visit_Import_def visit_ImportFrom_def visit_Global_def visit_Nonlocal_def visit_Pass_def
      visit_Break_def visit_Continue_def del: run.simps\<close>)


text \<open>The line breaks that \<^verbatim>\<open>newline(node)\<close> writes, and the line the output is on after it.\<close>

lemma write_newlines_result:
  "result s \<noteq> [] \<Longrightarrow>
   run (replicate k write_newline) s
     = Inr (s\<lparr>result := result s @ concat (replicate k [NL, indent_str s]),
              new_line := (k = 0 \<and> new_line s)\<rparr>)"
proof (induction k arbitrary: s)
  case 0
  show ?case by simp
next
  case (Suc k)
  let ?s1 = "s\<lparr>result := result s @ [NL, indent_str s], new_line := False\<rparr>"
  have 1: "write_newline s = Inr ?s1"
    using Suc.prems by (simp add: write_newline_Inr indent_str_def)
  have "result ?s1 \<noteq> []" by simp
  from Suc.IH [OF this] 1 show ?case
    by (simp add: indent_str_def)
qed

lemma count_breaks:
  "CHR 0x0A \<notin> set ind \<Longrightarrow> count_list (concat (concat (replicate k [NL, ind]))) (CHR 0x0A) = k"
  by (induction k) (simp_all add: NL_def count_list_append count_list_0_iff)

lemma no_break_indent: "CHR 0x0A \<notin> set (indent_with s) \<Longrightarrow> CHR 0x0A \<notin> set (indent_str s)"
  by (auto simp: indent_str_def)

lemma lines_breaks:
  assumes "result s \<noteq> []" and "CHR 0x0A \<notin> set (indent_with s)"
  shows "lines (s\<lparr>result := result s @ concat (replicate k [NL, indent_str s]), new_line := b\<rparr>)
     = lines s + int k"
  using assms(1) count_breaks [OF no_break_indent [OF assms(2)], of k]
  by (simp add: lines_count count_list_append)

lemma newline_on_line:
  assumes ind: "CHR 0x0A \<notin> set (indent_with s)" and behind: "lines s < L"
  shows "\<exists>sn. newline (Some L) s = Inr sn \<and> lines sn = L
     \<and> indent_with sn = indent_with s \<and> indentation sn = indentation s
     \<and> (result s \<noteq> [] \<longrightarrow>
          result sn = result s @ concat (replicate (nat (L - lines s)) [NL, indent_str s]))"
proof -
  let ?s0 = "s\<lparr>new_line := True\<rparr>"
  let ?s1 = "s\<lparr>result := (if result s = [] then [] else result s @ [NL]) @ [indent_str s],
               new_line := False\<rparr>"
  have w: "write_newline ?s0 = Inr ?s1"
    by (simp add: write_newline_Inr indent_str_def)
  have ne: "result ?s1 \<noteq> []" by simp
  have ind1: "CHR 0x0A \<notin> set (indent_with ?s1)" using ind by simp
  have l1: "lines ?s1 = (if result s = [] then 1 else lines s + 1)"
    using no_break_indent [OF ind]
    by (simp add: lines_count count_list_append NL_def count_list_0_iff)
  have le: "lines ?s1 \<le> L"
  proof (cases "result s = []")
    case True
    with behind l1 show ?thesis by (simp add: lines_count)
  next
    case False
    with behind l1 show ?thesis by simp
  qed
  let ?k = "nat (L - lines ?s1)"
  let ?sn = "?s1\<lparr>result := result ?s1 @ concat (replicate ?k [NL, indent_str ?s1]),
                 new_line := (?k = 0 \<and> new_line ?s1)\<rparr>"
  have a: "add_missing_lines L ?s1 = Inr ?sn"
    unfolding add_missing_lines_count by (rule write_newlines_result [OF ne])
  have n: "newline (Some L) s = Inr ?sn"
    using w a by (simp add: newline_def correct_line_number_def)
  have "lines ?sn = lines ?s1 + int ?k"
    by (rule lines_breaks [OF ne ind1])
  with le have ln: "lines ?sn = L" by simp
  have res: "result ?sn = result s @ concat (replicate (nat (L - lines s)) [NL, indent_str s])"
    if "result s \<noteq> []"
  proof -
    from that l1 have "lines ?s1 = lines s + 1" by simp
    with behind have k: "nat (L - lines s) = Suc ?k" by simp
    have i: "indent_str ?s1 = indent_str s" by (simp add: indent_str_def)
    from that show ?thesis unfolding k i by simp
  qed
  from n ln res show ?thesis by (intro exI [of _ ?sn]) simp
qed


text \<open>
  Claim C2 as amended. Let two statements whose rules begin with \<^verbatim>\<open>newline(node)\<close> have the
  line numbers \<open>L1 < L2\<close>, let the first one be rendered when the output is behind its line
  \<open>L1\<close>, and let its text hold no line break, so that the output is on line \<open>L1\<close> after it
  (the indentation unit holds no line break either). Then the first statement begins on line
  \<open>L1\<close>, and the rule of the second statement begins by writing exactly \<open>L2 - L1\<close> line
  breaks, each followed by the indentation, after the text of the first: these are
  \<open>L2 - L1 - 1\<close> blank lines, and the text of the second statement begins on line \<open>L2\<close>.
\<close>

theorem sibling_blank_lines:
  assumes nf1: "newline_first d st1" and nf2: "newline_first d st2"
    and l1: "lineno st1 = Some L1" and l2: "lineno st2 = Some L2" and lt: "L1 < L2"
    and behind: "lines s < L1"
    and v1: "visit d st1 s = Inr s1"
    and flat: "lines s1 = L1"
    and ind: "CHR 0x0A \<notin> set (indent_with s)" and ind1: "CHR 0x0A \<notin> set (indent_with s1)"
  shows "\<exists>k1 sn1 k2 sn2.
      visit d st1 = run [newline (Some L1), k1]
    \<and> newline (Some L1) s = Inr sn1 \<and> lines sn1 = L1 \<and> k1 sn1 = Inr s1
    \<and> visit d st2 = run [newline (Some L2), k2]
    \<and> newline (Some L2) s1 = Inr sn2 \<and> lines sn2 = L2
    \<and> result sn2 = result s1 @ concat (replicate (nat (L2 - L1)) [NL, indent_str s1])
    \<and> count_list (concat (concat (replicate (nat (L2 - L1)) [NL, indent_str s1]))) (CHR 0x0A)
        = nat (L2 - L1 - 1) + 1"
proof -
  from newline_first_visit [OF nf1] l1
  obtain k1 where k1: "visit d st1 = run [newline (Some L1), k1]" by auto
  from newline_first_visit [OF nf2] l2
  obtain k2 where k2: "visit d st2 = run [newline (Some L2), k2]" by auto
  from newline_on_line [OF ind behind]
  obtain sn1 where sn1: "newline (Some L1) s = Inr sn1" "lines sn1 = L1" by blast
  from v1 sn1(1) have r1: "k1 sn1 = Inr s1"
    unfolding k1 by (simp add: run_Nil split: sum.splits)
  have "0 \<le> lines s" by (simp add: lines_count)
  with behind flat have "0 < lines s1" by simp
  then have ne: "result s1 \<noteq> []" by (auto simp: lines_count split: if_splits)
  from lt flat have "lines s1 < L2" by simp
  from newline_on_line [OF ind1 this] ne flat
  obtain sn2 where sn2: "newline (Some L2) s1 = Inr sn2" "lines sn2 = L2"
      "result sn2 = result s1 @ concat (replicate (nat (L2 - L1)) [NL, indent_str s1])"
    by blast
  have "count_list (concat (concat (replicate (nat (L2 - L1)) [NL, indent_str s1]))) (CHR 0x0A)
      = nat (L2 - L1)"
    by (rule count_breaks [OF no_break_indent [OF ind1]])
  also from lt have "\<dots> = nat (L2 - L1 - 1) + 1" by simp
  finally have cnt: "count_list (concat (concat (replicate (nat (L2 - L1)) [NL, indent_str s1])))
      (CHR 0x0A) = nat (L2 - L1 - 1) + 1" .
  from k1 k2 sn1 r1 sn2 cnt show ?thesis by blast
qed

theorem sibling_blank_lines_witness:
  "newline_first Python27 (Pass (Some 2)) \<and> newline_first Python27 (Break (Some 5))
   \<and> lines (init ''  '') < 2
   \<and> (\<exists>s1 sn2. visit Python27 (Pass (Some 2)) (init ''  '') = Inr s1 \<and> lines s1 = 2
        \<and> newline (Some 5) s1 = Inr sn2 \<and> lines sn2 = 5
        \<and> result sn2 = result s1 @ concat (replicate 3 [NL, indent_str s1]))"
proof -
  let ?s = "init ''  ''"
  let ?s1 = "?s\<lparr>result := [[], NL, [], ''pass''], new_line := False\<rparr>"
  have a: "newline_first Python27 (Pass (Some 2))" "newline_first Python27 (Break (Some 5))"
    by (simp_all add: newline_first_def)
  have b: "lines ?s < 2" by (simp add: lines_count init_def)
  have c: "visit Python27 (Pass (Some 2)) ?s = Inr ?s1"
    by (simp add: visit_Pass_def prim_defs)
  have d: "lines ?s1 = 2" by (simp add: lines_count NL_def)
  have e: "CHR 0x0A \<notin> set (indent_with ?s)" "CHR 0x0A \<notin> set (indent_with ?s1)"
    by (simp_all add: init_def)
  from sibling_blank_lines [of Python27 "Pass (Some 2)" "Break (Some 5)" 2 5 ?s ?s1,
      OF a _ _ _ b c d e]
  have "\<exists>sn2. newline (Some 5) ?s1 = Inr sn2 \<and> lines sn2 = 5
        \<and> result sn2 = result ?s1 @ concat (replicate 3 [NL, indent_str ?s1])"
    by (simp add: numeral_3_eq_3) blast
  with a b c d show ?thesis by blast
qed

end
